theory Spec2Isabelle
  imports
    Main
    "HOL-Library.Multiset"
    "HOL-Library.Char_ord"
    "HOL-Library.List_Lexorder"
    "HOL-Library.Product_Lexorder"
    "HOL-Library.Mapping"
    "HOL-Library.AList_Mapping"
begin

section \<open>The Python built-ins the pipeline relies on\<close>

text \<open>
  The scraper is Python. Its exceptions are values here: a function that can raise returns
  \<open>error + 'a\<close>, with \<open>Inl\<close> carrying the exception. A \<open>string\<close> is a Python \<open>str\<close> whose
  code points are below 256, one \<open>char\<close> per code point; \<open>Char_ord\<close> and \<open>List_Lexorder\<close>
  order strings as Python's \<open><\<close> does, by code point and with a proper prefix first.
  A CSV row is a \<open>dict\<close> from column name to cell text, kept as an association list in
  insertion order and read with \<open>map_of\<close>. Every cell is taken to be a string, which is what
  \<open>csv.DictReader\<close> yields for a line that has as many fields as the header.
\<close>

datatype error = ValueError | KeyError

type_synonym row = "(string \<times> string) list"

definition and_then :: "error + 'a \<Rightarrow> ('a \<Rightarrow> error + 'b) \<Rightarrow> error + 'b" where
  "and_then m f = (case m of Inl e \<Rightarrow> Inl e | Inr x \<Rightarrow> f x)"

definition get_or :: "row \<Rightarrow> string \<Rightarrow> string \<Rightarrow> string" where
  \<comment> \<open>\<open>row.get(k, d)\<close>\<close>
  "get_or row k d = (case map_of row k of None \<Rightarrow> d | Some v \<Rightarrow> v)"

definition getitem :: "row \<Rightarrow> string \<Rightarrow> error + string" where
  \<comment> \<open>\<open>row[k]\<close>\<close>
  "getitem row k = (case map_of row k of None \<Rightarrow> Inl KeyError | Some v \<Rightarrow> Inr v)"

text \<open>
  \<open>int(s)\<close> on a string, as CPython reads a base-10 literal: white space on both sides is
  skipped, one sign may follow, then come decimal digits in which a single underscore may sit
  between two digits; nothing else may remain. More than 4300 digits are refused (the
  interpreter's default limit on integer strings). Every refusal is a \<open>ValueError\<close>.
  The white space of \<open>int\<close> below code point 256 is tab, line feed, vertical tab, form feed,
  carriage return, space, U+0085 and U+00A0.
\<close>

definition is_space :: "char \<Rightarrow> bool" where
  "is_space c \<longleftrightarrow> c \<in> {CHR 0x09, CHR 0x0A, CHR 0x0B, CHR 0x0C, CHR 0x0D, CHR 0x20, CHR 0x85, CHR 0xA0}"

definition is_digit :: "char \<Rightarrow> bool" where
  "is_digit c \<longleftrightarrow> c \<in> set ''0123456789''"

definition digit_val :: "char \<Rightarrow> nat" where
  "digit_val c = of_char c - 48"

fun underscores_ok :: "string \<Rightarrow> bool" where
  "underscores_ok [] = True"
| "underscores_ok [c] = (c \<noteq> CHR ''_'')"
| "underscores_ok (c # d # cs) = (\<not> (c = CHR ''_'' \<and> d = CHR ''_'') \<and> underscores_ok (d # cs))"

definition digits_value :: "string \<Rightarrow> nat" where
  "digits_value ds = foldl (\<lambda>acc c. 10 * acc + digit_val c) 0 ds"

definition max_str_digits :: nat where
  "max_str_digits = 4300"

definition py_int :: "string \<Rightarrow> int option" where
  "py_int s =
     (let s1 = dropWhile is_space s;
          neg = (s1 \<noteq> [] \<and> hd s1 = CHR ''-'');
          s2 = (if s1 \<noteq> [] \<and> (hd s1 = CHR ''+'' \<or> hd s1 = CHR ''-'') then tl s1 else s1);
          body = takeWhile (\<lambda>c. is_digit c \<or> c = CHR ''_'') s2;
          rest = dropWhile (\<lambda>c. is_digit c \<or> c = CHR ''_'') s2;
          ds = filter is_digit body
      in if body = [] \<or> hd body = CHR ''_'' \<or> \<not> underscores_ok body
            \<or> max_str_digits < length ds \<or> \<not> list_all is_space rest
         then None
         else Some (if neg then - int (digits_value ds) else int (digits_value ds)))"

definition int_str :: "string \<Rightarrow> error + int" where
  "int_str s = (case py_int s of None \<Rightarrow> Inl ValueError | Some n \<Rightarrow> Inr n)"

text \<open>
  A loop whose body may raise: the first row that raises ends the loop with its exception.
\<close>

fun for_each :: "('a \<Rightarrow> error + 'b) \<Rightarrow> 'a list \<Rightarrow> error + 'b list" where
  "for_each f [] = Inr []"
| "for_each f (x # xs) =
     (case f x of
        Inl e \<Rightarrow> Inl e
      | Inr y \<Rightarrow> (case for_each f xs of Inl e \<Rightarrow> Inl e | Inr ys \<Rightarrow> Inr (y # ys)))"

text \<open>
  \<open>sorted(xs, key=keyf)\<close> computes the key of every element first, and an exception of the
  key function leaves \<open>sorted\<close>. The sort is stable, so on keys of a linear order its result
  is that of \<open>sort_key\<close>. With \<open>reverse=True\<close> the list is reversed before and after the
  stable sort, which keeps elements of equal key in their original order.
\<close>

definition py_sorted :: "('a \<Rightarrow> error + 'k::linorder) \<Rightarrow> 'a list \<Rightarrow> error + 'a list" where
  "py_sorted keyf xs =
     (case for_each keyf xs of
        Inl e \<Rightarrow> Inl e
      | Inr ks \<Rightarrow> Inr (map snd (sort_key fst (zip ks xs))))"

definition py_sorted_reverse :: "('a \<Rightarrow> error + 'k::linorder) \<Rightarrow> 'a list \<Rightarrow> error + 'a list" where
  "py_sorted_reverse keyf xs =
     (case for_each keyf xs of
        Inl e \<Rightarrow> Inl e
      | Inr ks \<Rightarrow> Inr (rev (map snd (sort_key fst (rev (zip ks xs))))))"

section \<open>Reference data\<close>

text \<open>
  A GeoJSON feature with the properties the pipeline reads (\<open>iso\<close>, \<open>name_0\<close>, \<open>name_1\<close>,
  \<open>area_id\<close>); the geometry and every other member travel along unread in \<open>f_rest\<close>.
\<close>

record feature =
  f_iso :: string
  f_name_0 :: string
  f_name_1 :: string
  f_area_id :: int
  f_rest :: string

record country =
  c_iso3 :: string
  c_name :: string
  c_area_id :: int

record province_info =
  p_iso3 :: string
  p_name :: string

record pipeline =
  countries :: "country list"
  province_mapping :: "(int, province_info) mapping"

definition load_countries :: "feature list \<Rightarrow> country list" where
  "load_countries features =
     map (\<lambda>f. \<lparr>c_iso3 = f_iso f, c_name = f_name_0 f, c_area_id = f_area_id f\<rparr>) features"

definition build_province_mapping :: "feature list \<Rightarrow> (int, province_info) mapping" where
  "build_province_mapping features =
     foldl (\<lambda>mapping f. Mapping.update (f_area_id f) \<lparr>p_iso3 = f_iso f, p_name = f_name_1 f\<rparr> mapping)
       Mapping.empty features"

definition Pipeline :: "feature list \<Rightarrow> feature list \<Rightarrow> pipeline" where
  \<comment> \<open>the constructor, given the features of \<open>country.json\<close> and of \<open>provinces.json\<close>\<close>
  "Pipeline country_features province_features =
     \<lparr>countries = load_countries country_features,
      province_mapping = build_province_mapping province_features\<rparr>"

fun get_country_area_id_loop :: "country list \<Rightarrow> string \<Rightarrow> int option" where
  "get_country_area_id_loop [] country_code = None"
| "get_country_area_id_loop (c # cs) country_code =
     (if c_iso3 c = country_code then Some (c_area_id c)
      else get_country_area_id_loop cs country_code)"

definition get_country_area_id :: "pipeline \<Rightarrow> string \<Rightarrow> int option" where
  "get_country_area_id self country_code = get_country_area_id_loop (countries self) country_code"

definition get_province_area_ids :: "pipeline \<Rightarrow> string \<Rightarrow> int set" where
  "get_province_area_ids self country_code =
     Set.filter
       (\<lambda>area_id. case Mapping.lookup (province_mapping self) area_id of
                     None \<Rightarrow> False
                   | Some info \<Rightarrow> p_iso3 info = country_code)
       (Mapping.keys (province_mapping self))"

section \<open>Partitioning rows and features by country\<close>

fun filter_rows :: "int option \<Rightarrow> int set \<Rightarrow> row list \<Rightarrow> row list" where
  "filter_rows country_area_id province_area_ids [] = []"
| "filter_rows country_area_id province_area_ids (row # rows) =
     (case (case map_of row ''area_id'' of None \<Rightarrow> Some (- 1) | Some v \<Rightarrow> py_int v) of
        None \<Rightarrow> filter_rows country_area_id province_area_ids rows
      | Some area_id \<Rightarrow>
          (let admin_level = get_or row ''admin_level'' '''' in
           if admin_level = ''country'' \<and> Some area_id = country_area_id
           then row # filter_rows country_area_id province_area_ids rows
           else if admin_level = ''province'' \<and> area_id \<in> province_area_ids
           then row # filter_rows country_area_id province_area_ids rows
           else filter_rows country_area_id province_area_ids rows))"

definition filter_csv_by_country :: "pipeline \<Rightarrow> row list \<Rightarrow> string \<Rightarrow> row list" where
  "filter_csv_by_country self rows country_code =
     filter_rows (get_country_area_id self country_code)
       (get_province_area_ids self country_code) rows"

definition filter_geojson_by_country :: "feature list \<Rightarrow> string \<Rightarrow> feature list" where
  "filter_geojson_by_country geojson country_code =
     filter (\<lambda>feature. f_iso feature = country_code) geojson"

section \<open>The seven schema transformers\<close>

text \<open>
  Every transformer is one loop of the same shape: a row the table does not want is skipped
  (\<open>continue\<close>), any other row gives one new row that is appended. The loop body of a
  province-resolving transformer may raise, so the loop returns \<open>error + row list\<close>.
\<close>

fun transform_loop :: "(row \<Rightarrow> bool) \<Rightarrow> (row \<Rightarrow> error + row) \<Rightarrow> row list \<Rightarrow> error + row list" where
  "transform_loop skip new_row [] = Inr []"
| "transform_loop skip new_row (row # rows) =
     (if skip row then transform_loop skip new_row rows
      else case new_row row of
             Inl e \<Rightarrow> Inl e
           | Inr r \<Rightarrow>
               (case transform_loop skip new_row rows of
                  Inl e \<Rightarrow> Inl e
                | Inr rs \<Rightarrow> Inr (r # rs)))"

definition not_admin_level :: "string \<Rightarrow> row \<Rightarrow> bool" where
  \<comment> \<open>\<open>row.get("admin_level") != level\<close>; an absent column gives \<open>None\<close>, which differs\<close>
  "not_admin_level level row \<longleftrightarrow> map_of row ''admin_level'' \<noteq> Some level"

definition resolve_province :: "pipeline \<Rightarrow> row \<Rightarrow> error + string" where
  \<comment> \<open>the three lines that every province-resolving transformer repeats\<close>
  "resolve_province self row =
     (let area_id = get_or row ''area_id'' '''' in
      and_then
        (if area_id \<noteq> []
         then and_then (int_str area_id) (\<lambda>a. Inr (Mapping.lookup (province_mapping self) a))
         else Inr None)
        (\<lambda>admin1_info. Inr (case admin1_info of Some info \<Rightarrow> p_name info | None \<Rightarrow> '''')))"

definition year_key :: "row \<Rightarrow> error + int" where
  \<comment> \<open>\<open>int(x["year"])\<close>\<close>
  "year_key x = and_then (getitem x ''year'') int_str"

definition key2 :: "string \<Rightarrow> row \<Rightarrow> error + (int \<times> string)" where
  \<comment> \<open>\<open>(-int(x["year"]), x[k1])\<close>\<close>
  "key2 k1 x =
     and_then (year_key x) (\<lambda>y.
     and_then (getitem x k1) (\<lambda>a. Inr (- y, a)))"

definition key3 :: "string \<Rightarrow> string \<Rightarrow> row \<Rightarrow> error + (int \<times> string \<times> string)" where
  \<comment> \<open>\<open>(-int(x["year"]), x[k1], x[k2])\<close>\<close>
  "key3 k1 k2 x =
     and_then (year_key x) (\<lambda>y.
     and_then (getitem x k1) (\<lambda>a.
     and_then (getitem x k2) (\<lambda>b. Inr (- y, a, b))))"

definition key4 :: "string \<Rightarrow> string \<Rightarrow> string \<Rightarrow> row \<Rightarrow> error + (int \<times> string \<times> string \<times> string)" where
  \<comment> \<open>\<open>(-int(x["year"]), x[k1], x[k2], x[k3])\<close>\<close>
  "key4 k1 k2 k3 x =
     and_then (year_key x) (\<lambda>y.
     and_then (getitem x k1) (\<lambda>a.
     and_then (getitem x k2) (\<lambda>b.
     and_then (getitem x k3) (\<lambda>c. Inr (- y, a, b, c)))))"

definition gii_national_row :: "string \<Rightarrow> row \<Rightarrow> row" where
  "gii_national_row country_code row =
     [(''iso3'', country_code),
      (''country'', get_or row ''admin_name'' ''''),
      (''year'', get_or row ''year'' ''''),
      (''gender_inequality_index'', get_or row ''gii'' '''')]"

definition transform_gii_national :: "pipeline \<Rightarrow> row list \<Rightarrow> string \<Rightarrow> error + row list" where
  "transform_gii_national self rows country_code =
     and_then
       (transform_loop (not_admin_level ''country'')
          (\<lambda>row. Inr (gii_national_row country_code row)) rows)
       (py_sorted_reverse year_key)"

definition gii_subnational_row :: "string \<Rightarrow> string \<Rightarrow> string \<Rightarrow> row \<Rightarrow> row" where
  "gii_subnational_row country_code country_name province_name row =
     [(''iso3'', country_code),
      (''country'', country_name),
      (''province'', province_name),
      (''year'', get_or row ''year'' ''''),
      (''gender_inequality_index'', get_or row ''gii'' '''')]"

definition transform_gii_subnational ::
  "pipeline \<Rightarrow> row list \<Rightarrow> string \<Rightarrow> string \<Rightarrow> error + row list" where
  "transform_gii_subnational self rows country_code country_name =
     and_then
       (transform_loop (not_admin_level ''province'')
          (\<lambda>row. and_then (resolve_province self row) (\<lambda>province_name.
             Inr (gii_subnational_row country_code country_name province_name row))) rows)
       (py_sorted (key2 ''province''))"

definition dimension_national_row :: "string \<Rightarrow> row \<Rightarrow> row" where
  "dimension_national_row country_code row =
     [(''iso3'', country_code),
      (''country'', get_or row ''admin_name'' ''''),
      (''dimension_category'', get_or row '''' ''''),
      (''dimension'', get_or row ''dimension_name'' ''''),
      (''gender'', get_or row ''F/M'' ''''),
      (''year'', get_or row ''year'' ''''),
      (''value'', get_or row ''value'' ''''),
      (''unit'', get_or row ''Unit'' '''')]"

definition transform_dimension_national :: "pipeline \<Rightarrow> row list \<Rightarrow> string \<Rightarrow> error + row list" where
  "transform_dimension_national self rows country_code =
     and_then
       (transform_loop (not_admin_level ''country'')
          (\<lambda>row. Inr (dimension_national_row country_code row)) rows)
       (py_sorted (key3 ''dimension_category'' ''dimension''))"

definition dimension_subnational_row :: "string \<Rightarrow> string \<Rightarrow> string \<Rightarrow> row \<Rightarrow> row" where
  "dimension_subnational_row country_code country_name province_name row =
     [(''iso3'', country_code),
      (''country'', country_name),
      (''province'', province_name),
      (''dimension_category'', get_or row '''' ''''),
      (''dimension'', get_or row ''dimension_name'' ''''),
      (''gender'', get_or row ''F/M'' ''''),
      (''year'', get_or row ''year'' ''''),
      (''value'', get_or row ''value'' ''''),
      (''unit'', get_or row ''Unit'' '''')]"

definition transform_dimension_subnational ::
  "pipeline \<Rightarrow> row list \<Rightarrow> string \<Rightarrow> string \<Rightarrow> error + row list" where
  "transform_dimension_subnational self rows country_code country_name =
     and_then
       (transform_loop (not_admin_level ''province'')
          (\<lambda>row. and_then (resolve_province self row) (\<lambda>province_name.
             Inr (dimension_subnational_row country_code country_name province_name row))) rows)
       (py_sorted (key4 ''province'' ''dimension_category'' ''dimension''))"

definition indicator_national_row :: "string \<Rightarrow> string \<Rightarrow> row \<Rightarrow> row" where
  "indicator_national_row country_code country_name row =
     [(''iso3'', country_code),
      (''country'', country_name),
      (''indicator_category'', get_or row ''common_name'' ''''),
      (''indicator'', get_or row ''indicator_name'' ''''),
      (''gender'', get_or row ''F/M'' ''''),
      (''year'', get_or row ''year'' ''''),
      (''value'', get_or row ''value'' ''''),
      (''unit'', get_or row ''Unit'' '''')]"

definition transform_indicator_national ::
  "pipeline \<Rightarrow> row list \<Rightarrow> string \<Rightarrow> string \<Rightarrow> error + row list" where
  "transform_indicator_national self rows country_code country_name =
     and_then
       (transform_loop (not_admin_level ''country'')
          (\<lambda>row. Inr (indicator_national_row country_code country_name row)) rows)
       (py_sorted (key3 ''indicator_category'' ''indicator''))"

definition indicator_subnational_row :: "string \<Rightarrow> string \<Rightarrow> string \<Rightarrow> row \<Rightarrow> row" where
  "indicator_subnational_row country_code country_name province_name row =
     [(''iso3'', country_code),
      (''country'', country_name),
      (''province'', province_name),
      (''indicator_category'', get_or row ''common_name'' ''''),
      (''indicator'', get_or row ''indicator_name'' ''''),
      (''gender'', get_or row ''F/M'' ''''),
      (''year'', get_or row ''year'' ''''),
      (''value'', get_or row ''value'' ''''),
      (''unit'', get_or row ''Unit'' '''')]"

definition transform_indicator_subnational ::
  "pipeline \<Rightarrow> row list \<Rightarrow> string \<Rightarrow> string \<Rightarrow> error + row list" where
  "transform_indicator_subnational self rows country_code country_name =
     and_then
       (transform_loop (not_admin_level ''province'')
          (\<lambda>row. and_then (resolve_province self row) (\<lambda>province_name.
             Inr (indicator_subnational_row country_code country_name province_name row))) rows)
       (py_sorted (key4 ''province'' ''indicator_category'' ''indicator''))"

definition sex_disaggregated_row :: "string \<Rightarrow> string \<Rightarrow> string \<Rightarrow> row \<Rightarrow> row" where
  "sex_disaggregated_row country_code country_name province_name row =
     [(''iso3'', country_code),
      (''country'', country_name),
      (''province'', province_name),
      (''indicator'', get_or row ''dataset_name_l1'' ''''),
      (''sub_indicator'', get_or row ''dataset_name_l2'' ''''),
      (''gender'', get_or row ''F/M'' ''''),
      (''year'', get_or row ''year'' ''''),
      (''value'', get_or row ''value'' ''''),
      (''unit'', get_or row ''Unit'' ''''),
      (''calculation_type'', get_or row ''calc'' ''''),
      (''definition'', get_or row ''Definition'' '''')]"

definition transform_sex_disaggregated ::
  "pipeline \<Rightarrow> row list \<Rightarrow> string \<Rightarrow> string \<Rightarrow> error + row list" where
  "transform_sex_disaggregated self rows country_code country_name =
     and_then
       (transform_loop (\<lambda>row. False)
          (\<lambda>row. and_then (resolve_province self row) (\<lambda>province_name.
             Inr (sex_disaggregated_row country_code country_name province_name row))) rows)
       (py_sorted (key3 ''province'' ''indicator''))"

section \<open>The year range\<close>

definition add_year :: "row \<Rightarrow> int set \<Rightarrow> int set" where
  \<comment> \<open>the body of the loop of \<open>_get_years_from_rows\<close>\<close>
  "add_year row years =
     (case map_of row ''year'' of
        None \<Rightarrow> years
      | Some year \<Rightarrow>
          if year \<noteq> []
          then (case py_int year of None \<Rightarrow> years | Some n \<Rightarrow> insert n years)
          else years)"

definition get_years_from_rows :: "row list \<Rightarrow> int \<times> int" where
  "get_years_from_rows rows =
     (let years = fold add_year rows {} in
      if years \<noteq> {} then (Min years, Max years) else (2000, 2024))"

section \<open>The per-country aggregator\<close>

record inputs =
  gii_data :: "row list"
  dimension_data :: "row list"
  indicator_data :: "row list"
  sex_disagg_data :: "row list"
  country_geojson :: "feature list"
  province_geojson :: "feature list"

record country_result =
  r_iso3 :: string
  r_name :: string
  csv_data :: "(string \<times> row list) list"
  geojson_data :: "(string \<times> feature list) list"
  min_year :: int
  max_year :: int

definition country_data :: "pipeline \<Rightarrow> inputs \<Rightarrow> country \<Rightarrow> error + country_result" where
  \<comment> \<open>the body of the loop of \<open>get_country_data\<close>\<close>
  "country_data self inp country =
     (let country_code = c_iso3 country;
          country_name = c_name country;
          gii_filtered = filter_csv_by_country self (gii_data inp) country_code;
          dimension_filtered = filter_csv_by_country self (dimension_data inp) country_code;
          indicator_filtered = filter_csv_by_country self (indicator_data inp) country_code;
          sex_disagg_filtered = filter_csv_by_country self (sex_disagg_data inp) country_code
      in
      and_then (transform_gii_national self gii_filtered country_code) (\<lambda>t1.
      and_then (transform_gii_subnational self gii_filtered country_code country_name) (\<lambda>t2.
      and_then (transform_dimension_national self dimension_filtered country_code) (\<lambda>t3.
      and_then (transform_dimension_subnational self dimension_filtered country_code country_name) (\<lambda>t4.
      and_then (transform_indicator_national self indicator_filtered country_code country_name) (\<lambda>t5.
      and_then (transform_indicator_subnational self indicator_filtered country_code country_name) (\<lambda>t6.
      and_then (transform_sex_disaggregated self sex_disagg_filtered country_code country_name) (\<lambda>t7.
        let csv = [(''gii-national'', t1), (''gii-subnational'', t2),
                   (''dimension-national'', t3), (''dimension-subnational'', t4),
                   (''indicator-national'', t5), (''indicator-subnational'', t6),
                   (''sex-disaggregated'', t7)];
            geojson = [(''country-boundary'',
                          filter_geojson_by_country (country_geojson inp) country_code),
                       (''province-boundaries'',
                          filter_geojson_by_country (province_geojson inp) country_code)];
            all_rows = concat (map snd csv);
            years = get_years_from_rows all_rows
        in Inr \<lparr>r_iso3 = country_code, r_name = country_name, csv_data = csv,
                 geojson_data = geojson, min_year = fst years, max_year = snd years\<rparr>))))))))"

definition get_country_data :: "pipeline \<Rightarrow> inputs \<Rightarrow> error + country_result list" where
  "get_country_data self inp = for_each (country_data self inp) (countries self)"

section \<open>The vocabulary of the specification\<close>

text \<open>
  The definitions of this section are not translated from the code. They say in the words of
  the specification what is claimed of the code; the theorems relate the two.
\<close>

definition in_scope :: "string \<Rightarrow> row \<Rightarrow> bool" where
  \<comment> \<open>the row's \<open>admin_level\<close> column is present and holds \<open>level\<close>\<close>
  "in_scope level row \<longleftrightarrow> map_of row ''admin_level'' = Some level"

definition year_ok :: "row \<Rightarrow> bool" where
  \<comment> \<open>the row's \<open>year\<close> is present and parses as an integer\<close>
  "year_ok row \<longleftrightarrow> py_int (get_or row ''year'' '''') \<noteq> None"

definition year_int :: "row \<Rightarrow> int" where
  \<comment> \<open>the integer value of the row's \<open>year\<close>, when it has one\<close>
  "year_int row = (case py_int (get_or row ''year'' '''') of None \<Rightarrow> 0 | Some y \<Rightarrow> y)"

definition area_ok :: "row \<Rightarrow> bool" where
  \<comment> \<open>the row's \<open>area_id\<close> is absent, empty, or parses as an integer\<close>
  "area_ok row \<longleftrightarrow>
     get_or row ''area_id'' '''' = [] \<or> py_int (get_or row ''area_id'' '''') \<noteq> None"

definition province_of :: "pipeline \<Rightarrow> row \<Rightarrow> string" where
  \<comment> \<open>the mapped province name if the row's \<open>area_id\<close> is in the province mapping,
      the empty string in every other case\<close>
  "province_of self row =
     (case map_of row ''area_id'' of
        None \<Rightarrow> ''''
      | Some v \<Rightarrow>
          (case py_int v of
             None \<Rightarrow> ''''
           | Some a \<Rightarrow>
               (case Mapping.lookup (province_mapping self) a of
                  None \<Rightarrow> ''''
                | Some info \<Rightarrow> p_name info)))"

definition skey2 :: "string \<Rightarrow> row \<Rightarrow> int \<times> string" where
  "skey2 k1 r = (- year_int r, get_or r k1 '''')"

definition skey3 :: "string \<Rightarrow> string \<Rightarrow> row \<Rightarrow> int \<times> string \<times> string" where
  "skey3 k1 k2 r = (- year_int r, get_or r k1 '''', get_or r k2 '''')"

definition skey4 :: "string \<Rightarrow> string \<Rightarrow> string \<Rightarrow> row \<Rightarrow> int \<times> string \<times> string \<times> string" where
  "skey4 k1 k2 k3 r = (- year_int r, get_or r k1 '''', get_or r k2 '''', get_or r k3 '''')"

text \<open>The partition rule: which area a row names, and whether that area is the country's.\<close>

definition area_id_parsed :: "row \<Rightarrow> int option" where
  \<comment> \<open>the integer the row's \<open>area_id\<close> parses to; none when the column is absent\<close>
  "area_id_parsed row = (case map_of row ''area_id'' of None \<Rightarrow> None | Some v \<Rightarrow> py_int v)"

definition area_id_or_default :: "row \<Rightarrow> int option" where
  \<comment> \<open>the same, with an absent column read as \<open>-1\<close>\<close>
  "area_id_or_default row =
     (case map_of row ''area_id'' of None \<Rightarrow> Some (- 1) | Some v \<Rightarrow> py_int v)"

definition province_of_country :: "pipeline \<Rightarrow> string \<Rightarrow> int \<Rightarrow> bool" where
  \<comment> \<open>the province mapping has an entry for \<open>a\<close> whose iso3 is the country's\<close>
  "province_of_country self country_code a \<longleftrightarrow>
     (case Mapping.lookup (province_mapping self) a of
        None \<Rightarrow> False
      | Some info \<Rightarrow> p_iso3 info = country_code)"

definition area_matches :: "pipeline \<Rightarrow> string \<Rightarrow> string \<Rightarrow> int \<Rightarrow> bool" where
  "area_matches self country_code admin_level a \<longleftrightarrow>
     admin_level = ''country'' \<and> get_country_area_id self country_code = Some a
     \<or> admin_level = ''province'' \<and> province_of_country self country_code a"

definition claimed_keep :: "pipeline \<Rightarrow> string \<Rightarrow> row \<Rightarrow> bool" where
  \<comment> \<open>the rule as the specification words it: the \<open>area_id\<close> has to parse\<close>
  "claimed_keep self country_code row \<longleftrightarrow>
     (case area_id_parsed row of
        None \<Rightarrow> False
      | Some a \<Rightarrow> area_matches self country_code (get_or row ''admin_level'' '''') a)"

definition keeps :: "pipeline \<Rightarrow> string \<Rightarrow> row \<Rightarrow> bool" where
  \<comment> \<open>the rule with an absent \<open>area_id\<close> column read as \<open>-1\<close>\<close>
  "keeps self country_code row \<longleftrightarrow>
     (case area_id_or_default row of
        None \<Rightarrow> False
      | Some a \<Rightarrow> area_matches self country_code (get_or row ''admin_level'' '''') a)"

definition area_of_country :: "pipeline \<Rightarrow> string \<Rightarrow> row \<Rightarrow> bool" where
  \<comment> \<open>the row matches the country by area alone: its \<open>area_id\<close> parses to the country's
      area or to one of its provinces, whatever \<open>admin_level\<close> says\<close>
  "area_of_country self country_code row \<longleftrightarrow>
     (case area_id_parsed row of
        None \<Rightarrow> False
      | Some a \<Rightarrow> get_country_area_id self country_code = Some a
                  \<or> province_of_country self country_code a)"

text \<open>The years that parse, and the order of a sorted table.\<close>

definition parsed_years :: "row list \<Rightarrow> int set" where
  "parsed_years rows =
     {n. \<exists>row\<in>set rows. \<exists>y. map_of row ''year'' = Some y \<and> py_int y = Some n}"

fun fields_nondecreasing :: "string list \<Rightarrow> row \<Rightarrow> row \<Rightarrow> bool" where
  "fields_nondecreasing [] a b = True"
| "fields_nondecreasing (k # ks) a b =
     (get_or a k '''' \<le> get_or b k '''' \<and>
      (get_or a k '''' = get_or b k '''' \<longrightarrow> fields_nondecreasing ks a b))"

definition pair_ordered :: "string list \<Rightarrow> row \<Rightarrow> row \<Rightarrow> bool" where
  \<comment> \<open>\<open>a\<close> may stand directly before \<open>b\<close>: the year does not increase, and within one
      year the fields \<open>ks\<close> do not decrease, each within equal earlier ones\<close>
  "pair_ordered ks a b \<longleftrightarrow>
     year_ok a \<and> year_ok b \<and> year_int b \<le> year_int a \<and>
     (year_int a = year_int b \<longrightarrow> fields_nondecreasing ks a b)"

definition table_ordered :: "string list \<Rightarrow> row list \<Rightarrow> bool" where
  "table_ordered ks out \<longleftrightarrow> (\<forall>i. Suc i < length out \<longrightarrow> pair_ordered ks (out ! i) (out ! Suc i))"

definition stable_sort_of :: "('a \<Rightarrow> 'k::linorder) \<Rightarrow> 'a list \<Rightarrow> 'a list \<Rightarrow> bool" where
  \<comment> \<open>what Python promises of \<open>sorted\<close>: a rearrangement, in key order, that keeps the
      elements of one key in their input order\<close>
  "stable_sort_of k xs ys \<longleftrightarrow>
     mset ys = mset xs \<and> sorted (map k ys) \<and>
     (\<forall>v. filter (\<lambda>x. k x = v) ys = filter (\<lambda>x. k x = v) xs)"

text \<open>What a row of the output table named \<open>t\<close> says about its country.\<close>

definition row_of_country ::
  "pipeline \<Rightarrow> inputs \<Rightarrow> string \<Rightarrow> string \<Rightarrow> string \<Rightarrow> row \<Rightarrow> bool" where
  \<comment> \<open>the row's \<open>iso3\<close> is the country's code; its \<open>country\<close> is the country's name,
      but in the two national tables that take no name it is the \<open>admin_name\<close> of a
      source row of the country's own national partition: a row of the table's source that
      the partitioner keeps for this country and whose \<open>admin_level\<close> is country\<close>
  "row_of_country self inp code name t r \<longleftrightarrow>
     map_of r ''iso3'' = Some code \<and>
     (if t = ''gii-national''
      then \<exists>row\<in>set (gii_data inp).
             keeps self code row \<and> in_scope ''country'' row \<and>
             map_of r ''country'' = Some (get_or row ''admin_name'' '''')
      else if t = ''dimension-national''
      then \<exists>row\<in>set (dimension_data inp).
             keeps self code row \<and> in_scope ''country'' row \<and>
             map_of r ''country'' = Some (get_or row ''admin_name'' '''')
      else map_of r ''country'' = Some name)"

text \<open>The data of the worked examples: Cambodia, with Phnom Penh as its one province.\<close>

definition example_pipeline :: pipeline where
  "example_pipeline =
     Pipeline
       [\<lparr>f_iso = ''KHM'', f_name_0 = ''Cambodia'', f_name_1 = '''', f_area_id = 1, f_rest = ''''\<rparr>]
       [\<lparr>f_iso = ''KHM'', f_name_0 = ''Cambodia'', f_name_1 = ''Phnom Penh'',
         f_area_id = 12345, f_rest = ''''\<rparr>]"

definition no_inputs :: inputs where
  "no_inputs =
     \<lparr>gii_data = [], dimension_data = [], indicator_data = [], sex_disagg_data = [],
      country_geojson = [], province_geojson = []\<rparr>"

definition example_inputs :: inputs where
  "example_inputs =
     \<lparr>gii_data =
        [[(''area_id'', ''12345''), (''admin_level'', ''province''), (''admin_name'', ''x''),
          (''year'', ''2019''), (''gii'', ''0.42'')],
         [(''area_id'', ''1''), (''admin_level'', ''country''), (''admin_name'', ''Kampuchea''),
          (''year'', ''2015''), (''gii'', ''0.5'')],
         [(''area_id'', ''2''), (''admin_level'', ''country''), (''admin_name'', ''Elsewhere''),
          (''year'', ''1990''), (''gii'', ''0.9'')]],
      dimension_data = [],
      indicator_data = [],
      sex_disagg_data =
        [[(''area_id'', ''12345''), (''admin_level'', ''province''),
          (''dataset_name_l1'', ''Literacy''), (''year'', ''2018'')]],
      country_geojson =
        [\<lparr>f_iso = ''KHM'', f_name_0 = ''Cambodia'', f_name_1 = '''', f_area_id = 1,
          f_rest = ''''\<rparr>],
      province_geojson =
        [\<lparr>f_iso = ''KHM'', f_name_0 = ''Cambodia'', f_name_1 = ''Phnom Penh'',
          f_area_id = 12345, f_rest = ''''\<rparr>]\<rparr>"

definition example_result :: country_result where
  "example_result =
     \<lparr>r_iso3 = ''KHM'', r_name = ''Cambodia'',
      csv_data =
        [(''gii-national'',
            [[(''iso3'', ''KHM''), (''country'', ''Kampuchea''), (''year'', ''2015''),
              (''gender_inequality_index'', ''0.5'')]]),
         (''gii-subnational'',
            [[(''iso3'', ''KHM''), (''country'', ''Cambodia''), (''province'', ''Phnom Penh''),
              (''year'', ''2019''), (''gender_inequality_index'', ''0.42'')]]),
         (''dimension-national'', []), (''dimension-subnational'', []),
         (''indicator-national'', []), (''indicator-subnational'', []),
         (''sex-disaggregated'',
            [[(''iso3'', ''KHM''), (''country'', ''Cambodia''), (''province'', ''Phnom Penh''),
              (''indicator'', ''Literacy''), (''sub_indicator'', ''''), (''gender'', ''''),
              (''year'', ''2018''), (''value'', ''''), (''unit'', ''''),
              (''calculation_type'', ''''), (''definition'', '''')]])],
      geojson_data =
        [(''country-boundary'',
            [\<lparr>f_iso = ''KHM'', f_name_0 = ''Cambodia'', f_name_1 = '''', f_area_id = 1,
              f_rest = ''''\<rparr>]),
         (''province-boundaries'',
            [\<lparr>f_iso = ''KHM'', f_name_0 = ''Cambodia'', f_name_1 = ''Phnom Penh'',
              f_area_id = 12345, f_rest = ''''\<rparr>])],
      min_year = 2015, max_year = 2019\<rparr>"

section \<open>Lemmas about the model\<close>

lemma and_then_Inr_iff:
  "and_then m f = Inr y \<longleftrightarrow> (\<exists>x. m = Inr x \<and> f x = Inr y)"
  by (cases m) (simp_all add: and_then_def)

lemma and_then_Inr [simp]: "and_then (Inr x) f = f x"
  by (simp add: and_then_def)

lemma and_then_Inl [simp]: "and_then (Inl e) f = Inl e"
  by (simp add: and_then_def)

lemma for_each_map:
  "(\<And>x. x \<in> set xs \<Longrightarrow> f x = Inr (g x)) \<Longrightarrow> for_each f xs = Inr (map g xs)"
  by (induction xs) simp_all

lemma for_each_Inr_D:
  "for_each f xs = Inr ys \<Longrightarrow> x \<in> set xs \<Longrightarrow> \<exists>y. f x = Inr y"
  by (induction xs arbitrary: ys) (auto split: sum.splits)

lemma for_each_Inl_D:
  "for_each f xs = Inl e \<Longrightarrow> \<exists>x\<in>set xs. f x = Inl e"
  by (induction xs) (auto split: sum.splits)

lemma for_each_Inl_I:
  "x \<in> set xs \<Longrightarrow> f x = Inl e \<Longrightarrow> \<exists>e'. for_each f xs = Inl e'"
  by (induction xs) (auto split: sum.splits)

lemma transform_loop_filter:
  "transform_loop skip new_row rows = for_each new_row (filter (\<lambda>row. \<not> skip row) rows)"
  by (induction rows) (simp_all split: sum.splits)

lemma sort_key_decorated:
  "map snd (sort_key fst (map (\<lambda>x. (k x, x)) xs)) = sort_key k xs"
proof -
  have "sort_key fst (map (\<lambda>x. (k x, x)) xs) = map (\<lambda>x. (k x, x)) (sort_key k xs)"
  proof (induction xs)
    case Nil
    show ?case by simp
  next
    case (Cons a xs)
    have ins: "insort_key fst (k a, a) (map (\<lambda>x. (k x, x)) ys) = map (\<lambda>x. (k x, x)) (insort_key k a ys)" for ys
      by (induction ys) simp_all
    show ?case using Cons by (simp add: ins)
  qed
  then show ?thesis by (simp add: comp_def)
qed

lemma py_sorted_total:
  assumes "\<And>x. x \<in> set xs \<Longrightarrow> keyf x = Inr (k x)"
  shows "py_sorted keyf xs = Inr (sort_key k xs)"
proof -
  have "for_each keyf xs = Inr (map k xs)" using assms by (rule for_each_map)
  moreover have "zip (map k xs) xs = map (\<lambda>x. (k x, x)) xs"
    by (induction xs) simp_all
  ultimately show ?thesis by (simp add: py_sorted_def sort_key_decorated)
qed

lemma py_sorted_reverse_total:
  assumes "\<And>x. x \<in> set xs \<Longrightarrow> keyf x = Inr (k x)"
  shows "py_sorted_reverse keyf xs = Inr (rev (sort_key k (rev xs)))"
proof -
  have "for_each keyf xs = Inr (map k xs)" using assms by (rule for_each_map)
  moreover have "zip (map k xs) xs = map (\<lambda>x. (k x, x)) xs"
    by (induction xs) simp_all
  ultimately show ?thesis
    by (simp add: py_sorted_reverse_def sort_key_decorated rev_map)
qed

lemma py_sorted_Inr_D:
  "py_sorted keyf xs = Inr ys \<Longrightarrow> x \<in> set xs \<Longrightarrow> \<exists>k. keyf x = Inr k"
  by (auto simp: py_sorted_def split: sum.splits dest: for_each_Inr_D)

lemma py_sorted_reverse_Inr_D:
  "py_sorted_reverse keyf xs = Inr ys \<Longrightarrow> x \<in> set xs \<Longrightarrow> \<exists>k. keyf x = Inr k"
  by (auto simp: py_sorted_reverse_def split: sum.splits dest: for_each_Inr_D)

lemma py_sorted_Inl_I:
  "x \<in> set xs \<Longrightarrow> keyf x = Inl e \<Longrightarrow> \<exists>e'. py_sorted keyf xs = Inl e'"
  using for_each_Inl_I [of x xs keyf e] by (auto simp: py_sorted_def)

lemma py_int_Nil [simp]: "py_int [] = None"
  by (simp add: py_int_def)

lemma resolve_province_ok:
  "area_ok row \<Longrightarrow> resolve_province self row = Inr (province_of self row)"
  by (auto simp: area_ok_def resolve_province_def province_of_def get_or_def int_str_def
      split: option.splits)

lemma resolve_province_raises:
  "\<not> area_ok row \<Longrightarrow> resolve_province self row = Inl ValueError"
  by (auto simp: area_ok_def resolve_province_def get_or_def int_str_def split: option.splits)

lemma transformer_iff:
  assumes nr_ok: "\<And>row. ok row \<Longrightarrow> new_row row = Inr (g row)"
      and nr_bad: "\<And>row. \<not> ok row \<Longrightarrow> new_row row = Inl ValueError"
      and key_ok: "\<And>row. year_ok row \<Longrightarrow> keyf (g row) = Inr (k (g row))"
      and key_bad: "\<And>row. \<not> year_ok row \<Longrightarrow> keyf (g row) = Inl ValueError"
  shows "and_then (transform_loop skip new_row rows) (py_sorted keyf) = Inr out \<longleftrightarrow>
           (\<forall>row\<in>set rows. \<not> skip row \<longrightarrow> ok row \<and> year_ok row) \<and>
           out = sort_key k (map g (filter (\<lambda>row. \<not> skip row) rows))"
proof (cases "\<forall>row\<in>set rows. \<not> skip row \<longrightarrow> ok row \<and> year_ok row")
  case True
  let ?rows = "filter (\<lambda>row. \<not> skip row) rows"
  have loop: "transform_loop skip new_row rows = Inr (map g ?rows)"
    unfolding transform_loop_filter using True by (intro for_each_map nr_ok) simp
  have "py_sorted keyf (map g ?rows) = Inr (sort_key k (map g ?rows))"
    using True by (intro py_sorted_total) (auto simp: key_ok)
  with loop True show ?thesis by auto
next
  case False
  then obtain row where row: "row \<in> set rows" "\<not> skip row" "\<not> (ok row \<and> year_ok row)"
    by blast
  let ?rows = "filter (\<lambda>row. \<not> skip row) rows"
  have mem: "row \<in> set ?rows" using row by simp
  have "\<exists>e. and_then (transform_loop skip new_row rows) (py_sorted keyf) = Inl e"
  proof (cases "transform_loop skip new_row rows")
    case (Inl e)
    then show ?thesis by simp
  next
    case (Inr ts)
    then have fe: "for_each new_row ?rows = Inr ts" by (simp add: transform_loop_filter)
    have all_ok: "\<forall>r\<in>set ?rows. ok r"
    proof
      fix r assume "r \<in> set ?rows"
      from for_each_Inr_D [OF fe this] show "ok r" using nr_bad [of r] by (cases "ok r") auto
    qed
    then have "for_each new_row ?rows = Inr (map g ?rows)"
      by (intro for_each_map nr_ok) simp
    with fe have ts: "ts = map g ?rows" by simp
    from all_ok mem row have "\<not> year_ok row" by auto
    then have "keyf (g row) = Inl ValueError" by (rule key_bad)
    moreover have "g row \<in> set ts" using mem ts by simp
    ultimately have "\<exists>e. py_sorted keyf ts = Inl e"
      by (intro py_sorted_Inl_I [of "g row" ts keyf ValueError])
    with Inr show ?thesis by simp
  qed
  then obtain e where "and_then (transform_loop skip new_row rows) (py_sorted keyf) = Inl e" ..
  with False show ?thesis by simp
qed

lemma transformer_reverse_iff:
  assumes nr_ok: "\<And>row. new_row row = Inr (g row)"
      and key_ok: "\<And>row. year_ok row \<Longrightarrow> keyf (g row) = Inr (k (g row))"
      and key_bad: "\<And>row. \<not> year_ok row \<Longrightarrow> keyf (g row) = Inl ValueError"
  shows "and_then (transform_loop skip new_row rows) (py_sorted_reverse keyf) = Inr out \<longleftrightarrow>
           (\<forall>row\<in>set rows. \<not> skip row \<longrightarrow> year_ok row) \<and>
           out = rev (sort_key k (rev (map g (filter (\<lambda>row. \<not> skip row) rows))))"
proof -
  let ?rows = "filter (\<lambda>row. \<not> skip row) rows"
  have loop: "transform_loop skip new_row rows = Inr (map g ?rows)"
    unfolding transform_loop_filter by (intro for_each_map nr_ok)
  show ?thesis
  proof (cases "\<forall>row\<in>set rows. \<not> skip row \<longrightarrow> year_ok row")
    case True
    have "py_sorted_reverse keyf (map g ?rows) = Inr (rev (sort_key k (rev (map g ?rows))))"
      using True by (intro py_sorted_reverse_total) (auto simp: key_ok)
    with loop True show ?thesis by auto
  next
    case False
    then obtain row where row: "row \<in> set rows" "\<not> skip row" "\<not> year_ok row"
      by blast
    have "g row \<in> set (map g ?rows)" using row by simp
    moreover have "keyf (g row) = Inl ValueError" using row(3) by (rule key_bad)
    ultimately have "for_each keyf (map g ?rows) \<noteq> Inr ks" for ks
      using for_each_Inr_D [of keyf "map g ?rows" ks "g row"] by auto
    then have "py_sorted_reverse keyf (map g ?rows) \<noteq> Inr out"
      by (auto simp: py_sorted_reverse_def split: sum.splits)
    with loop False show ?thesis by simp
  qed
qed

lemma year_key_row:
  "map_of r ''year'' = Some (get_or row ''year'' '''') \<Longrightarrow>
   year_key r = (if year_ok row then Inr (year_int row) else Inl ValueError)"
  by (auto simp: year_key_def getitem_def int_str_def year_ok_def year_int_def split: option.splits)

lemma gii_national_row_fields [simp]:
  "map_of (gii_national_row c row) ''iso3'' = Some c"
  "map_of (gii_national_row c row) ''country'' = Some (get_or row ''admin_name'' '''')"
  "map_of (gii_national_row c row) ''year'' = Some (get_or row ''year'' '''')"
  by (simp_all add: gii_national_row_def)

lemma gii_subnational_row_fields [simp]:
  "map_of (gii_subnational_row c n p row) ''iso3'' = Some c"
  "map_of (gii_subnational_row c n p row) ''country'' = Some n"
  "map_of (gii_subnational_row c n p row) ''province'' = Some p"
  "map_of (gii_subnational_row c n p row) ''year'' = Some (get_or row ''year'' '''')"
  by (simp_all add: gii_subnational_row_def)

lemma dimension_national_row_fields [simp]:
  "map_of (dimension_national_row c row) ''iso3'' = Some c"
  "map_of (dimension_national_row c row) ''country'' = Some (get_or row ''admin_name'' '''')"
  "map_of (dimension_national_row c row) ''dimension_category'' = Some (get_or row '''' '''')"
  "map_of (dimension_national_row c row) ''dimension'' = Some (get_or row ''dimension_name'' '''')"
  "map_of (dimension_national_row c row) ''year'' = Some (get_or row ''year'' '''')"
  by (simp_all add: dimension_national_row_def)

lemma dimension_subnational_row_fields [simp]:
  "map_of (dimension_subnational_row c n p row) ''iso3'' = Some c"
  "map_of (dimension_subnational_row c n p row) ''country'' = Some n"
  "map_of (dimension_subnational_row c n p row) ''province'' = Some p"
  "map_of (dimension_subnational_row c n p row) ''dimension_category'' = Some (get_or row '''' '''')"
  "map_of (dimension_subnational_row c n p row) ''dimension'' = Some (get_or row ''dimension_name'' '''')"
  "map_of (dimension_subnational_row c n p row) ''year'' = Some (get_or row ''year'' '''')"
  by (simp_all add: dimension_subnational_row_def)

lemma indicator_national_row_fields [simp]:
  "map_of (indicator_national_row c n row) ''iso3'' = Some c"
  "map_of (indicator_national_row c n row) ''country'' = Some n"
  "map_of (indicator_national_row c n row) ''indicator_category'' = Some (get_or row ''common_name'' '''')"
  "map_of (indicator_national_row c n row) ''indicator'' = Some (get_or row ''indicator_name'' '''')"
  "map_of (indicator_national_row c n row) ''year'' = Some (get_or row ''year'' '''')"
  by (simp_all add: indicator_national_row_def)

lemma indicator_subnational_row_fields [simp]:
  "map_of (indicator_subnational_row c n p row) ''iso3'' = Some c"
  "map_of (indicator_subnational_row c n p row) ''country'' = Some n"
  "map_of (indicator_subnational_row c n p row) ''province'' = Some p"
  "map_of (indicator_subnational_row c n p row) ''indicator_category'' = Some (get_or row ''common_name'' '''')"
  "map_of (indicator_subnational_row c n p row) ''indicator'' = Some (get_or row ''indicator_name'' '''')"
  "map_of (indicator_subnational_row c n p row) ''year'' = Some (get_or row ''year'' '''')"
  by (simp_all add: indicator_subnational_row_def)

lemma sex_disaggregated_row_fields [simp]:
  "map_of (sex_disaggregated_row c n p row) ''iso3'' = Some c"
  "map_of (sex_disaggregated_row c n p row) ''country'' = Some n"
  "map_of (sex_disaggregated_row c n p row) ''province'' = Some p"
  "map_of (sex_disaggregated_row c n p row) ''indicator'' = Some (get_or row ''dataset_name_l1'' '''')"
  "map_of (sex_disaggregated_row c n p row) ''year'' = Some (get_or row ''year'' '''')"
  by (simp_all add: sex_disaggregated_row_def)

lemma year_key_present:
  "map_of r ''year'' = Some y \<Longrightarrow>
   year_key r = (if year_ok r then Inr (year_int r) else Inl ValueError)"
  by (auto simp: year_key_def getitem_def int_str_def year_ok_def year_int_def get_or_def
      split: option.splits)

lemma key2_present:
  "map_of r ''year'' = Some y \<Longrightarrow> map_of r k1 = Some a \<Longrightarrow>
   key2 k1 r = (if year_ok r then Inr (skey2 k1 r) else Inl ValueError)"
  by (simp add: key2_def skey2_def year_key_present getitem_def get_or_def)

lemma key3_present:
  "map_of r ''year'' = Some y \<Longrightarrow> map_of r k1 = Some a \<Longrightarrow> map_of r k2 = Some b \<Longrightarrow>
   key3 k1 k2 r = (if year_ok r then Inr (skey3 k1 k2 r) else Inl ValueError)"
  by (simp add: key3_def skey3_def year_key_present getitem_def get_or_def)

lemma key4_present:
  "map_of r ''year'' = Some y \<Longrightarrow> map_of r k1 = Some a \<Longrightarrow> map_of r k2 = Some b \<Longrightarrow>
   map_of r k3 = Some c \<Longrightarrow>
   key4 k1 k2 k3 r = (if year_ok r then Inr (skey4 k1 k2 k3 r) else Inl ValueError)"
  by (simp add: key4_def skey4_def year_key_present getitem_def get_or_def)

lemma year_ok_copy:
  "map_of r ''year'' = Some (get_or row ''year'' '''') \<Longrightarrow> year_ok r = year_ok row"
  by (simp add: year_ok_def get_or_def)

lemma new_row_resolved:
  "and_then (resolve_province self row) (\<lambda>p. Inr (mk p row)) =
     (if area_ok row then Inr (mk (province_of self row) row) else Inl ValueError)"
  by (simp add: resolve_province_ok resolve_province_raises)

lemma not_not_admin_level [simp]: "(\<not> not_admin_level level row) = in_scope level row"
  by (simp add: not_admin_level_def in_scope_def)

lemma transform_gii_national_iff:
  "transform_gii_national self rows code = Inr out \<longleftrightarrow>
     (\<forall>row\<in>set rows. in_scope ''country'' row \<longrightarrow> year_ok row) \<and>
     out = rev (sort_key year_int (rev (map (gii_national_row code)
             (filter (in_scope ''country'') rows))))"
  unfolding transform_gii_national_def
  by (subst transformer_reverse_iff [where g = "gii_national_row code" and k = year_int])
     (simp_all add: year_key_present year_ok_copy)

lemma transform_gii_subnational_iff:
  "transform_gii_subnational self rows code name = Inr out \<longleftrightarrow>
     (\<forall>row\<in>set rows. in_scope ''province'' row \<longrightarrow> area_ok row \<and> year_ok row) \<and>
     out = sort_key (skey2 ''province'')
             (map (\<lambda>row. gii_subnational_row code name (province_of self row) row)
                (filter (in_scope ''province'') rows))"
  unfolding transform_gii_subnational_def new_row_resolved
  by (subst transformer_iff [where ok = area_ok
        and g = "\<lambda>row. gii_subnational_row code name (province_of self row) row"
        and k = "skey2 ''province''"])
     (simp_all add: key2_present year_ok_copy)

lemma transform_dimension_national_iff:
  "transform_dimension_national self rows code = Inr out \<longleftrightarrow>
     (\<forall>row\<in>set rows. in_scope ''country'' row \<longrightarrow> year_ok row) \<and>
     out = sort_key (skey3 ''dimension_category'' ''dimension'')
             (map (dimension_national_row code) (filter (in_scope ''country'') rows))"
  unfolding transform_dimension_national_def
  by (subst transformer_iff [where ok = "\<lambda>row. True" and g = "dimension_national_row code"
        and k = "skey3 ''dimension_category'' ''dimension''"])
     (simp_all add: key3_present year_ok_copy)

lemma transform_dimension_subnational_iff:
  "transform_dimension_subnational self rows code name = Inr out \<longleftrightarrow>
     (\<forall>row\<in>set rows. in_scope ''province'' row \<longrightarrow> area_ok row \<and> year_ok row) \<and>
     out = sort_key (skey4 ''province'' ''dimension_category'' ''dimension'')
             (map (\<lambda>row. dimension_subnational_row code name (province_of self row) row)
                (filter (in_scope ''province'') rows))"
  unfolding transform_dimension_subnational_def new_row_resolved
  by (subst transformer_iff [where ok = area_ok
        and g = "\<lambda>row. dimension_subnational_row code name (province_of self row) row"
        and k = "skey4 ''province'' ''dimension_category'' ''dimension''"])
     (simp_all add: key4_present year_ok_copy)

lemma transform_indicator_national_iff:
  "transform_indicator_national self rows code name = Inr out \<longleftrightarrow>
     (\<forall>row\<in>set rows. in_scope ''country'' row \<longrightarrow> year_ok row) \<and>
     out = sort_key (skey3 ''indicator_category'' ''indicator'')
             (map (indicator_national_row code name) (filter (in_scope ''country'') rows))"
  unfolding transform_indicator_national_def
  by (subst transformer_iff [where ok = "\<lambda>row. True" and g = "indicator_national_row code name"
        and k = "skey3 ''indicator_category'' ''indicator''"])
     (simp_all add: key3_present year_ok_copy)

lemma transform_indicator_subnational_iff:
  "transform_indicator_subnational self rows code name = Inr out \<longleftrightarrow>
     (\<forall>row\<in>set rows. in_scope ''province'' row \<longrightarrow> area_ok row \<and> year_ok row) \<and>
     out = sort_key (skey4 ''province'' ''indicator_category'' ''indicator'')
             (map (\<lambda>row. indicator_subnational_row code name (province_of self row) row)
                (filter (in_scope ''province'') rows))"
  unfolding transform_indicator_subnational_def new_row_resolved
  by (subst transformer_iff [where ok = area_ok
        and g = "\<lambda>row. indicator_subnational_row code name (province_of self row) row"
        and k = "skey4 ''province'' ''indicator_category'' ''indicator''"])
     (simp_all add: key4_present year_ok_copy)

lemma transform_sex_disaggregated_iff:
  "transform_sex_disaggregated self rows code name = Inr out \<longleftrightarrow>
     (\<forall>row\<in>set rows. area_ok row \<and> year_ok row) \<and>
     out = sort_key (skey3 ''province'' ''indicator'')
             (map (\<lambda>row. sex_disaggregated_row code name (province_of self row) row) rows)"
  unfolding transform_sex_disaggregated_def new_row_resolved
  by (subst transformer_iff [where ok = area_ok
        and g = "\<lambda>row. sex_disaggregated_row code name (province_of self row) row"
        and k = "skey3 ''province'' ''indicator''"])
     (simp_all add: key3_present year_ok_copy)

lemma in_get_province_area_ids:
  "a \<in> get_province_area_ids self country_code \<longleftrightarrow> province_of_country self country_code a"
  by (auto simp: get_province_area_ids_def province_of_country_def keys_dom_lookup
      split: option.splits)

lemma filter_rows_filter:
  "filter_rows cid pids rows =
     filter (\<lambda>row. case area_id_or_default row of
                      None \<Rightarrow> False
                    | Some a \<Rightarrow> get_or row ''admin_level'' '''' = ''country'' \<and> Some a = cid
                        \<or> get_or row ''admin_level'' '''' = ''province'' \<and> a \<in> pids) rows"
  by (induction rows) (auto simp: area_id_or_default_def Let_def split: option.splits)

lemma partition_rule:
  "filter_csv_by_country self rows country_code = filter (keeps self country_code) rows"
  unfolding filter_csv_by_country_def filter_rows_filter
  by (rule filter_cong [OF refl])
     (auto simp: keeps_def area_matches_def in_get_province_area_ids split: option.splits)

lemma keeps_area_ok: "keeps self code row \<Longrightarrow> area_ok row"
  by (auto simp: keeps_def area_ok_def area_id_or_default_def get_or_def split: option.splits)

lemma keeps_admin_level:
  "keeps self code row \<Longrightarrow> in_scope ''country'' row \<or> in_scope ''province'' row"
  by (auto simp: keeps_def area_matches_def in_scope_def get_or_def split: option.splits)

lemma fold_add_year: "fold add_year rows S = S \<union> parsed_years rows"
proof (induction rows arbitrary: S)
  case Nil
  show ?case by (simp add: parsed_years_def)
next
  case (Cons row rows)
  have "parsed_years (row # rows) = add_year row {} \<union> parsed_years rows"
    by (auto simp: parsed_years_def add_year_def split: option.splits)
  moreover have "add_year row S = S \<union> add_year row {}"
    by (auto simp: add_year_def split: option.splits)
  ultimately show ?case using Cons by auto
qed

lemma finite_parsed_years: "finite (parsed_years rows)"
proof -
  have "parsed_years rows \<subseteq> (\<lambda>row. case map_of row ''year'' of None \<Rightarrow> 0 | Some y \<Rightarrow> (case py_int y of None \<Rightarrow> 0 | Some n \<Rightarrow> n)) ` set rows"
    by (force simp: parsed_years_def)
  then show ?thesis by (rule finite_subset) simp
qed

lemma get_years_from_rows_eq:
  "get_years_from_rows rows =
     (if parsed_years rows = {} then (2000, 2024)
      else (Min (parsed_years rows), Max (parsed_years rows)))"
  by (simp add: get_years_from_rows_def fold_add_year Let_def)

lemma get_years_ordered: "fst (get_years_from_rows rows) \<le> snd (get_years_from_rows rows)"
  by (simp add: get_years_from_rows_eq finite_parsed_years)

lemma country_data_Inr_D:
  assumes "country_data self inp c = Inr res"
  shows "r_iso3 res = c_iso3 c" "r_name res = c_name c" "min_year res \<le> max_year res"
    "\<exists>t1 t2 t3 t4 t5 t6 t7.
       transform_gii_national self (filter_csv_by_country self (gii_data inp) (c_iso3 c)) (c_iso3 c) = Inr t1 \<and>
       transform_gii_subnational self (filter_csv_by_country self (gii_data inp) (c_iso3 c)) (c_iso3 c) (c_name c) = Inr t2 \<and>
       transform_dimension_national self (filter_csv_by_country self (dimension_data inp) (c_iso3 c)) (c_iso3 c) = Inr t3 \<and>
       transform_dimension_subnational self (filter_csv_by_country self (dimension_data inp) (c_iso3 c)) (c_iso3 c) (c_name c) = Inr t4 \<and>
       transform_indicator_national self (filter_csv_by_country self (indicator_data inp) (c_iso3 c)) (c_iso3 c) (c_name c) = Inr t5 \<and>
       transform_indicator_subnational self (filter_csv_by_country self (indicator_data inp) (c_iso3 c)) (c_iso3 c) (c_name c) = Inr t6 \<and>
       transform_sex_disaggregated self (filter_csv_by_country self (sex_disagg_data inp) (c_iso3 c)) (c_iso3 c) (c_name c) = Inr t7 \<and>
       csv_data res = [(''gii-national'', t1), (''gii-subnational'', t2),
                   (''dimension-national'', t3), (''dimension-subnational'', t4),
                   (''indicator-national'', t5), (''indicator-subnational'', t6),
                   (''sex-disaggregated'', t7)]"
  using assms get_years_ordered
  unfolding country_data_def Let_def and_then_Inr_iff
  by auto

lemma for_each_nth:
  "for_each f xs = Inr ys \<Longrightarrow> length ys = length xs \<and> (\<forall>i<length xs. f (xs ! i) = Inr (ys ! i))"
proof (induction xs arbitrary: ys)
  case Nil
  then show ?case by simp
next
  case (Cons x xs)
  then show ?case by (auto split: sum.splits simp: nth_Cons split: nat.splits)
qed

lemma for_each_set:
  "for_each f xs = Inr ys \<Longrightarrow> y \<in> set ys \<Longrightarrow> \<exists>x\<in>set xs. f x = Inr y"
  by (induction xs arbitrary: ys) (auto split: sum.splits)

text \<open>The order of a sorted table.\<close>

lemma sorted_adjacent:
  "sorted (map k out) \<Longrightarrow> Suc i < length out \<Longrightarrow> k (out ! i) \<le> k (out ! Suc i)"
  using sorted_nth_mono [of "map k out" i "Suc i"] by simp

lemma skey2_le:
  "skey2 k1 a \<le> skey2 k1 b \<Longrightarrow>
   year_int b \<le> year_int a \<and> (year_int a = year_int b \<longrightarrow> fields_nondecreasing [k1] a b)"
  by (auto simp: skey2_def)

lemma skey3_le:
  "skey3 k1 k2 a \<le> skey3 k1 k2 b \<Longrightarrow>
   year_int b \<le> year_int a \<and> (year_int a = year_int b \<longrightarrow> fields_nondecreasing [k1, k2] a b)"
  by (auto simp: skey3_def)

lemma skey4_le:
  "skey4 k1 k2 k3 a \<le> skey4 k1 k2 k3 b \<Longrightarrow>
   year_int b \<le> year_int a \<and>
   (year_int a = year_int b \<longrightarrow> fields_nondecreasing [k1, k2, k3] a b)"
  by (auto simp: skey4_def)

lemma table_ordered_sort_key:
  assumes le: "\<And>a b. k a \<le> k b \<Longrightarrow>
                 year_int b \<le> year_int a \<and>
                 (year_int a = year_int b \<longrightarrow> fields_nondecreasing ks a b)"
      and ok: "\<And>r. r \<in> set xs \<Longrightarrow> year_ok r"
  shows "table_ordered ks (sort_key k xs)"
  unfolding table_ordered_def pair_ordered_def
proof (intro allI impI)
  fix i
  let ?out = "sort_key k xs"
  assume i: "Suc i < length ?out"
  have "sorted (map k ?out)" by (rule sorted_sort_key)
  then have "k (?out ! i) \<le> k (?out ! Suc i)" using i by (rule sorted_adjacent)
  then have ord: "year_int (?out ! Suc i) \<le> year_int (?out ! i) \<and>
      (year_int (?out ! i) = year_int (?out ! Suc i) \<longrightarrow>
         fields_nondecreasing ks (?out ! i) (?out ! Suc i))"
    by (rule le)
  have "?out ! i \<in> set xs" "?out ! Suc i \<in> set xs"
    using i nth_mem [of i ?out] nth_mem [of "Suc i" ?out] by simp_all
  then have "year_ok (?out ! i)" "year_ok (?out ! Suc i)" by (simp_all add: ok)
  with ord show "year_ok (?out ! i) \<and> year_ok (?out ! Suc i) \<and>
      year_int (?out ! Suc i) \<le> year_int (?out ! i) \<and>
      (year_int (?out ! i) = year_int (?out ! Suc i) \<longrightarrow>
         fields_nondecreasing ks (?out ! i) (?out ! Suc i))"
    by simp
qed

lemma gii_subnational_ordered:
  assumes "transform_gii_subnational self rows code name = Inr out"
  shows "table_ordered [''province''] out"
proof -
  from assms have ok: "\<forall>row\<in>set rows. in_scope ''province'' row \<longrightarrow> year_ok row"
    and out: "out = sort_key (skey2 ''province'')
             (map (\<lambda>row. gii_subnational_row code name (province_of self row) row)
                (filter (in_scope ''province'') rows))"
    by (simp_all add: transform_gii_subnational_iff)
  show ?thesis unfolding out
    by (rule table_ordered_sort_key [OF skey2_le]) (use ok in \<open>auto simp: year_ok_copy\<close>)
qed

lemma dimension_subnational_ordered:
  assumes "transform_dimension_subnational self rows code name = Inr out"
  shows "table_ordered [''province'', ''dimension_category'', ''dimension''] out"
proof -
  from assms have ok: "\<forall>row\<in>set rows. in_scope ''province'' row \<longrightarrow> year_ok row"
    and out: "out = sort_key (skey4 ''province'' ''dimension_category'' ''dimension'')
             (map (\<lambda>row. dimension_subnational_row code name (province_of self row) row)
                (filter (in_scope ''province'') rows))"
    by (simp_all add: transform_dimension_subnational_iff)
  show ?thesis unfolding out
    by (rule table_ordered_sort_key [OF skey4_le]) (use ok in \<open>auto simp: year_ok_copy\<close>)
qed

lemma indicator_subnational_ordered:
  assumes "transform_indicator_subnational self rows code name = Inr out"
  shows "table_ordered [''province'', ''indicator_category'', ''indicator''] out"
proof -
  from assms have ok: "\<forall>row\<in>set rows. in_scope ''province'' row \<longrightarrow> year_ok row"
    and out: "out = sort_key (skey4 ''province'' ''indicator_category'' ''indicator'')
             (map (\<lambda>row. indicator_subnational_row code name (province_of self row) row)
                (filter (in_scope ''province'') rows))"
    by (simp_all add: transform_indicator_subnational_iff)
  show ?thesis unfolding out
    by (rule table_ordered_sort_key [OF skey4_le]) (use ok in \<open>auto simp: year_ok_copy\<close>)
qed

lemma sex_disaggregated_ordered:
  assumes "transform_sex_disaggregated self rows code name = Inr out"
  shows "table_ordered [''province'', ''indicator''] out"
proof -
  from assms have ok: "\<forall>row\<in>set rows. year_ok row"
    and out: "out = sort_key (skey3 ''province'' ''indicator'')
             (map (\<lambda>row. sex_disaggregated_row code name (province_of self row) row) rows)"
    by (simp_all add: transform_sex_disaggregated_iff)
  show ?thesis unfolding out
    by (rule table_ordered_sort_key [OF skey3_le]) (use ok in \<open>auto simp: year_ok_copy\<close>)
qed

text \<open>Where the rows of an output table come from.\<close>

lemma filter_csv_subset: "set (filter_csv_by_country self rows code) \<subseteq> set rows"
  by (simp add: partition_rule)

lemma gii_national_rows:
  "transform_gii_national self rows code = Inr out \<Longrightarrow> r \<in> set out \<Longrightarrow>
   \<exists>row\<in>set rows. in_scope ''country'' row \<and> r = gii_national_row code row"
  by (auto simp: transform_gii_national_iff)

lemma gii_subnational_rows:
  "transform_gii_subnational self rows code name = Inr out \<Longrightarrow> r \<in> set out \<Longrightarrow>
   \<exists>row\<in>set rows. r = gii_subnational_row code name (province_of self row) row"
  by (auto simp: transform_gii_subnational_iff)

lemma dimension_national_rows:
  "transform_dimension_national self rows code = Inr out \<Longrightarrow> r \<in> set out \<Longrightarrow>
   \<exists>row\<in>set rows. in_scope ''country'' row \<and> r = dimension_national_row code row"
  by (auto simp: transform_dimension_national_iff)

lemma dimension_subnational_rows:
  "transform_dimension_subnational self rows code name = Inr out \<Longrightarrow> r \<in> set out \<Longrightarrow>
   \<exists>row\<in>set rows. r = dimension_subnational_row code name (province_of self row) row"
  by (auto simp: transform_dimension_subnational_iff)

lemma indicator_national_rows:
  "transform_indicator_national self rows code name = Inr out \<Longrightarrow> r \<in> set out \<Longrightarrow>
   \<exists>row\<in>set rows. r = indicator_national_row code name row"
  by (auto simp: transform_indicator_national_iff)

lemma indicator_subnational_rows:
  "transform_indicator_subnational self rows code name = Inr out \<Longrightarrow> r \<in> set out \<Longrightarrow>
   \<exists>row\<in>set rows. r = indicator_subnational_row code name (province_of self row) row"
  by (auto simp: transform_indicator_subnational_iff)

lemma sex_disaggregated_rows:
  "transform_sex_disaggregated self rows code name = Inr out \<Longrightarrow> r \<in> set out \<Longrightarrow>
   \<exists>row\<in>set rows. r = sex_disaggregated_row code name (province_of self row) row"
  by (auto simp: transform_sex_disaggregated_iff)

lemma country_data_rows:
  assumes cd: "country_data self inp c = Inr res"
      and t: "(t, table) \<in> set (csv_data res)"
      and r: "r \<in> set table"
  shows "row_of_country self inp (c_iso3 c) (c_name c) t r"
proof -
  from country_data_Inr_D(4) [OF cd] obtain t1 t2 t3 t4 t5 t6 t7 where
    t1: "transform_gii_national self (filter_csv_by_country self (gii_data inp) (c_iso3 c)) (c_iso3 c) = Inr t1" and
    t2: "transform_gii_subnational self (filter_csv_by_country self (gii_data inp) (c_iso3 c)) (c_iso3 c) (c_name c) = Inr t2" and
    t3: "transform_dimension_national self (filter_csv_by_country self (dimension_data inp) (c_iso3 c)) (c_iso3 c) = Inr t3" and
    t4: "transform_dimension_subnational self (filter_csv_by_country self (dimension_data inp) (c_iso3 c)) (c_iso3 c) (c_name c) = Inr t4" and
    t5: "transform_indicator_national self (filter_csv_by_country self (indicator_data inp) (c_iso3 c)) (c_iso3 c) (c_name c) = Inr t5" and
    t6: "transform_indicator_subnational self (filter_csv_by_country self (indicator_data inp) (c_iso3 c)) (c_iso3 c) (c_name c) = Inr t6" and
    t7: "transform_sex_disaggregated self (filter_csv_by_country self (sex_disagg_data inp) (c_iso3 c)) (c_iso3 c) (c_name c) = Inr t7" and
    csv: "csv_data res = [(''gii-national'', t1), (''gii-subnational'', t2),
                   (''dimension-national'', t3), (''dimension-subnational'', t4),
                   (''indicator-national'', t5), (''indicator-subnational'', t6),
                   (''sex-disaggregated'', t7)]"
    by blast
  from t csv have "(t = ''gii-national'' \<and> table = t1)
      \<or> (t = ''gii-subnational'' \<and> table = t2)
      \<or> (t = ''dimension-national'' \<and> table = t3)
      \<or> (t = ''dimension-subnational'' \<and> table = t4)
      \<or> (t = ''indicator-national'' \<and> table = t5)
      \<or> (t = ''indicator-subnational'' \<and> table = t6)
      \<or> (t = ''sex-disaggregated'' \<and> table = t7)"
    by simp
  then show ?thesis
  proof (elim disjE conjE)
    assume c1: "t = ''gii-national''" "table = t1"
    with r gii_national_rows [OF t1, of r] obtain row
      where "row \<in> set (filter_csv_by_country self (gii_data inp) (c_iso3 c))"
        "in_scope ''country'' row" "r = gii_national_row (c_iso3 c) row" by blast
    then have "row \<in> set (gii_data inp)" "keeps self (c_iso3 c) row"
      "in_scope ''country'' row"
      "map_of r ''country'' = Some (get_or row ''admin_name'' '''')"
      "map_of r ''iso3'' = Some (c_iso3 c)"
      by (simp_all add: partition_rule)
    then show ?thesis using c1 by (auto simp: row_of_country_def)
  next
    assume c2: "t = ''gii-subnational''" "table = t2"
    with r gii_subnational_rows [OF t2, of r] obtain row where "r = gii_subnational_row (c_iso3 c) (c_name c) (province_of self row) row"
      by blast
    then show ?thesis using c2 by (simp add: row_of_country_def)
  next
    assume c3: "t = ''dimension-national''" "table = t3"
    with r dimension_national_rows [OF t3, of r] obtain row
      where "row \<in> set (filter_csv_by_country self (dimension_data inp) (c_iso3 c))"
        "in_scope ''country'' row" "r = dimension_national_row (c_iso3 c) row" by blast
    then have "row \<in> set (dimension_data inp)" "keeps self (c_iso3 c) row"
      "in_scope ''country'' row"
      "map_of r ''country'' = Some (get_or row ''admin_name'' '''')"
      "map_of r ''iso3'' = Some (c_iso3 c)"
      by (simp_all add: partition_rule)
    then show ?thesis using c3 by (auto simp: row_of_country_def)
  next
    assume c4: "t = ''dimension-subnational''" "table = t4"
    with r dimension_subnational_rows [OF t4, of r] obtain row where "r = dimension_subnational_row (c_iso3 c) (c_name c) (province_of self row) row"
      by blast
    then show ?thesis using c4 by (simp add: row_of_country_def)
  next
    assume c5: "t = ''indicator-national''" "table = t5"
    with r indicator_national_rows [OF t5, of r] obtain row where "r = indicator_national_row (c_iso3 c) (c_name c) row"
      by blast
    then show ?thesis using c5 by (simp add: row_of_country_def)
  next
    assume c6: "t = ''indicator-subnational''" "table = t6"
    with r indicator_subnational_rows [OF t6, of r] obtain row where "r = indicator_subnational_row (c_iso3 c) (c_name c) (province_of self row) row"
      by blast
    then show ?thesis using c6 by (simp add: row_of_country_def)
  next
    assume c7: "t = ''sex-disaggregated''" "table = t7"
    with r sex_disaggregated_rows [OF t7, of r] obtain row where "r = sex_disaggregated_row (c_iso3 c) (c_name c) (province_of self row) row"
      by blast
    then show ?thesis using c7 by (simp add: row_of_country_def)
  qed
qed

text \<open>A row whose year does not parse, and the uniqueness of a stable sort.\<close>

lemma unparsable_year_not_returned:
  assumes "row \<in> set rows" and "\<not> year_ok row"
  shows "in_scope ''country'' row \<Longrightarrow> transform_gii_national self rows code \<noteq> Inr out"
    and "in_scope ''province'' row \<Longrightarrow> transform_gii_subnational self rows code name \<noteq> Inr out"
    and "in_scope ''country'' row \<Longrightarrow> transform_dimension_national self rows code \<noteq> Inr out"
    and "in_scope ''province'' row \<Longrightarrow> transform_dimension_subnational self rows code name \<noteq> Inr out"
    and "in_scope ''country'' row \<Longrightarrow> transform_indicator_national self rows code name \<noteq> Inr out"
    and "in_scope ''province'' row \<Longrightarrow> transform_indicator_subnational self rows code name \<noteq> Inr out"
    and "transform_sex_disaggregated self rows code name \<noteq> Inr out"
  using assms
  by (auto simp: transform_gii_national_iff transform_gii_subnational_iff
      transform_dimension_national_iff transform_dimension_subnational_iff
      transform_indicator_national_iff transform_indicator_subnational_iff
      transform_sex_disaggregated_iff)

lemmas transformer_defs =
  transform_gii_national_def transform_gii_subnational_def
  transform_dimension_national_def transform_dimension_subnational_def
  transform_indicator_national_def transform_indicator_subnational_def
  transform_sex_disaggregated_def not_admin_level_def py_sorted_def py_sorted_reverse_def
  key2_def key3_def key4_def gii_national_row_def gii_subnational_row_def
  dimension_national_row_def dimension_subnational_row_def indicator_national_row_def
  indicator_subnational_row_def sex_disaggregated_row_def get_or_def
  year_key_def getitem_def int_str_def resolve_province_def

lemma py_sorted_unique:
  assumes "stable_sort_of k xs ys" and "\<And>x. x \<in> set xs \<Longrightarrow> keyf x = Inr (k x)"
  shows "py_sorted keyf xs = Inr ys"
proof -
  from assms(1) have m: "mset ys = mset xs" and s: "sorted (map k ys)"
    and f: "\<And>v. filter (\<lambda>x. k x = v) ys = filter (\<lambda>x. k x = v) xs"
    by (simp_all add: stable_sort_of_def)
  have "sort_key k xs = ys"
  proof (rule properties_for_sort_key [OF m _ s])
    fix y
    have "(\<lambda>x. k y = k x) = (\<lambda>x. k x = k y)" by (rule ext) (rule eq_commute)
    then show "filter (\<lambda>x. k y = k x) ys = filter (\<lambda>x. k y = k x) xs" by (simp add: f)
  qed
  with py_sorted_total [of xs keyf k] assms(2) show ?thesis by simp
qed

lemma mset_sorted_rows: "mset (sort_key k (map g xs)) = image_mset g (mset xs)"
  by simp

text \<open>Values of the worked examples.\<close>

lemma py_int_1: "py_int ''1'' = Some 1"
  by code_simp

lemma py_int_2: "py_int ''2'' = Some 2"
  by code_simp

lemma py_int_7: "py_int ''7'' = Some 7"
  by code_simp

lemma py_int_12345: "py_int ''12345'' = Some 12345"
  by code_simp

lemma py_int_1990: "py_int ''1990'' = Some 1990"
  by code_simp

lemma py_int_2015: "py_int ''2015'' = Some 2015"
  by code_simp

lemma py_int_2018: "py_int ''2018'' = Some 2018"
  by code_simp

lemma py_int_2019: "py_int ''2019'' = Some 2019"
  by code_simp

lemma py_int_2020: "py_int ''2020'' = Some 2020"
  by code_simp

lemma py_int_abc: "py_int ''abc'' = None"
  by code_simp

lemma example_lookup:
  "Mapping.lookup (province_mapping example_pipeline) a =
     (if a = 12345 then Some \<lparr>p_iso3 = ''KHM'', p_name = ''Phnom Penh''\<rparr> else None)"
  by (simp add: example_pipeline_def Pipeline_def build_province_mapping_def lookup_update')

lemma example_countries:
  "countries example_pipeline = [\<lparr>c_iso3 = ''KHM'', c_name = ''Cambodia'', c_area_id = 1\<rparr>]"
  by (simp add: example_pipeline_def Pipeline_def load_countries_def)

lemma example_country_area_id: "get_country_area_id example_pipeline ''KHM'' = Some 1"
  by (simp add: get_country_area_id_def example_countries)

lemmas example_values =
  py_int_1 py_int_2 py_int_7 py_int_12345 py_int_1990 py_int_2015 py_int_2018 py_int_2019
  py_int_2020 py_int_abc example_lookup example_country_area_id

lemmas row_predicates =
  in_scope_def area_ok_def year_ok_def year_int_def get_or_def province_of_def
  keeps_def area_id_or_default_def area_matches_def province_of_country_def

lemma example_run: "get_country_data example_pipeline example_inputs = Inr [example_result]"
proof -
  have g: "filter_csv_by_country example_pipeline (gii_data example_inputs) ''KHM''
      = [[(''area_id'', ''12345''), (''admin_level'', ''province''), (''admin_name'', ''x''),
          (''year'', ''2019''), (''gii'', ''0.42'')],
         [(''area_id'', ''1''), (''admin_level'', ''country''), (''admin_name'', ''Kampuchea''),
          (''year'', ''2015''), (''gii'', ''0.5'')]]"
    by (simp add: partition_rule example_inputs_def row_predicates example_values)
  have s: "filter_csv_by_country example_pipeline (sex_disagg_data example_inputs) ''KHM''
      = [[(''area_id'', ''12345''), (''admin_level'', ''province''),
          (''dataset_name_l1'', ''Literacy''), (''year'', ''2018'')]]"
    by (simp add: partition_rule example_inputs_def row_predicates example_values)
  have e: "filter_csv_by_country example_pipeline [] ''KHM'' = []"
    by (simp add: partition_rule)
  have t1: "transform_gii_national example_pipeline
      [[(''area_id'', ''12345''), (''admin_level'', ''province''), (''admin_name'', ''x''),
          (''year'', ''2019''), (''gii'', ''0.42'')],
         [(''area_id'', ''1''), (''admin_level'', ''country''), (''admin_name'', ''Kampuchea''),
          (''year'', ''2015''), (''gii'', ''0.5'')]] ''KHM''
      = Inr [[(''iso3'', ''KHM''), (''country'', ''Kampuchea''), (''year'', ''2015''),
              (''gender_inequality_index'', ''0.5'')]]"
    by (simp add: transform_gii_national_iff gii_national_row_def row_predicates example_values)
  have t2: "transform_gii_subnational example_pipeline
      [[(''area_id'', ''12345''), (''admin_level'', ''province''), (''admin_name'', ''x''),
          (''year'', ''2019''), (''gii'', ''0.42'')],
         [(''area_id'', ''1''), (''admin_level'', ''country''), (''admin_name'', ''Kampuchea''),
          (''year'', ''2015''), (''gii'', ''0.5'')]] ''KHM'' ''Cambodia''
      = Inr [[(''iso3'', ''KHM''), (''country'', ''Cambodia''), (''province'', ''Phnom Penh''),
              (''year'', ''2019''), (''gender_inequality_index'', ''0.42'')]]"
    by (simp add: transform_gii_subnational_iff gii_subnational_row_def row_predicates
        example_values)
  have t3: "transform_dimension_national example_pipeline [] ''KHM'' = Inr []"
    by (simp add: transform_dimension_national_iff)
  have t4: "transform_dimension_subnational example_pipeline [] ''KHM'' ''Cambodia'' = Inr []"
    by (simp add: transform_dimension_subnational_iff)
  have t5: "transform_indicator_national example_pipeline [] ''KHM'' ''Cambodia'' = Inr []"
    by (simp add: transform_indicator_national_iff)
  have t6: "transform_indicator_subnational example_pipeline [] ''KHM'' ''Cambodia'' = Inr []"
    by (simp add: transform_indicator_subnational_iff)
  have t7: "transform_sex_disaggregated example_pipeline
      [[(''area_id'', ''12345''), (''admin_level'', ''province''),
          (''dataset_name_l1'', ''Literacy''), (''year'', ''2018'')]] ''KHM'' ''Cambodia''
      = Inr [[(''iso3'', ''KHM''), (''country'', ''Cambodia''), (''province'', ''Phnom Penh''),
              (''indicator'', ''Literacy''), (''sub_indicator'', ''''), (''gender'', ''''),
              (''year'', ''2018''), (''value'', ''''), (''unit'', ''''),
              (''calculation_type'', ''''), (''definition'', '''')]]"
    by (simp add: transform_sex_disaggregated_iff sex_disaggregated_row_def row_predicates
        example_values)
  have y: "get_years_from_rows
      [[(''iso3'', ''KHM''), (''country'', ''Kampuchea''), (''year'', ''2015''),
              (''gender_inequality_index'', ''0.5'')],
       [(''iso3'', ''KHM''), (''country'', ''Cambodia''), (''province'', ''Phnom Penh''),
              (''year'', ''2019''), (''gender_inequality_index'', ''0.42'')],
       [(''iso3'', ''KHM''), (''country'', ''Cambodia''), (''province'', ''Phnom Penh''),
              (''indicator'', ''Literacy''), (''sub_indicator'', ''''), (''gender'', ''''),
              (''year'', ''2018''), (''value'', ''''), (''unit'', ''''),
              (''calculation_type'', ''''), (''definition'', '''')]] = (2015, 2019)"
    by (simp add: get_years_from_rows_def add_year_def example_values)
  have d: "dimension_data example_inputs = []" "indicator_data example_inputs = []"
    by (simp_all add: example_inputs_def)
  have geo: "filter_geojson_by_country (country_geojson example_inputs) ''KHM''
        = [\<lparr>f_iso = ''KHM'', f_name_0 = ''Cambodia'', f_name_1 = '''', f_area_id = 1,
              f_rest = ''''\<rparr>]"
      "filter_geojson_by_country (province_geojson example_inputs) ''KHM''
        = [\<lparr>f_iso = ''KHM'', f_name_0 = ''Cambodia'', f_name_1 = ''Phnom Penh'',
              f_area_id = 12345, f_rest = ''''\<rparr>]"
    by (simp_all add: example_inputs_def filter_geojson_by_country_def)
  have "country_data example_pipeline example_inputs
          \<lparr>c_iso3 = ''KHM'', c_name = ''Cambodia'', c_area_id = 1\<rparr> = Inr example_result"
    by (simp add: country_data_def Let_def g s e d t1 t2 t3 t4 t5 t6 t7 y geo example_result_def)
  then show ?thesis
    by (simp add: get_country_data_def example_countries)
qed

section \<open>The claims\<close>

subsection \<open>C1: a row whose year does not parse\<close>

text \<open>
  C1. Each of the seven schema transformers is claimed to leave a row whose \<open>year\<close> is
  missing or does not parse as an integer out of its sorted output without raising. The code
  does not do so: the sort key \<open>int(x["year"])\<close> is computed for every record and nothing
  catches its \<open>ValueError\<close>. On one country-filtered row with year \<open>abc\<close> each of the seven
  transformers raises, so does the index-national transformer on a row with no year, and so
  does the whole run of the aggregator.
\<close>

theorem invalid_year_raises_example:
  "transform_gii_national example_pipeline
     [[(''area_id'', ''1''), (''admin_level'', ''country''), (''year'', ''abc'')]] ''KHM''
     = Inl ValueError
   \<and> transform_gii_subnational example_pipeline
     [[(''area_id'', ''12345''), (''admin_level'', ''province''), (''year'', ''abc'')]]
     ''KHM'' ''Cambodia'' = Inl ValueError
   \<and> transform_dimension_national example_pipeline
     [[(''area_id'', ''1''), (''admin_level'', ''country''), (''year'', ''abc'')]] ''KHM''
     = Inl ValueError
   \<and> transform_dimension_subnational example_pipeline
     [[(''area_id'', ''12345''), (''admin_level'', ''province''), (''year'', ''abc'')]]
     ''KHM'' ''Cambodia'' = Inl ValueError
   \<and> transform_indicator_national example_pipeline
     [[(''area_id'', ''1''), (''admin_level'', ''country''), (''year'', ''abc'')]]
     ''KHM'' ''Cambodia'' = Inl ValueError
   \<and> transform_indicator_subnational example_pipeline
     [[(''area_id'', ''12345''), (''admin_level'', ''province''), (''year'', ''abc'')]]
     ''KHM'' ''Cambodia'' = Inl ValueError
   \<and> transform_sex_disaggregated example_pipeline
     [[(''area_id'', ''12345''), (''admin_level'', ''province''), (''year'', ''abc'')]]
     ''KHM'' ''Cambodia'' = Inl ValueError
   \<and> transform_gii_national example_pipeline
     [[(''area_id'', ''1''), (''admin_level'', ''country''), (''gii'', ''0.42'')]] ''KHM''
     = Inl ValueError
   \<and> get_country_data example_pipeline
     (no_inputs\<lparr>gii_data :=
        [[(''area_id'', ''1''), (''admin_level'', ''country''), (''year'', ''abc'')]]\<rparr>)
     = Inl ValueError"
proof -
  have 1: "transform_gii_national example_pipeline
     [[(''area_id'', ''1''), (''admin_level'', ''country''), (''year'', ''abc'')]] ''KHM''
     = Inl ValueError"
    by (simp add: transformer_defs py_int_abc)
  have 2: "transform_gii_subnational example_pipeline
     [[(''area_id'', ''12345''), (''admin_level'', ''province''), (''year'', ''abc'')]]
     ''KHM'' ''Cambodia'' = Inl ValueError"
    by (simp add: transformer_defs py_int_abc py_int_12345)
  have 3: "transform_dimension_national example_pipeline
     [[(''area_id'', ''1''), (''admin_level'', ''country''), (''year'', ''abc'')]] ''KHM''
     = Inl ValueError"
    by (simp add: transformer_defs py_int_abc)
  have 4: "transform_dimension_subnational example_pipeline
     [[(''area_id'', ''12345''), (''admin_level'', ''province''), (''year'', ''abc'')]]
     ''KHM'' ''Cambodia'' = Inl ValueError"
    by (simp add: transformer_defs py_int_abc py_int_12345)
  have 5: "transform_indicator_national example_pipeline
     [[(''area_id'', ''1''), (''admin_level'', ''country''), (''year'', ''abc'')]]
     ''KHM'' ''Cambodia'' = Inl ValueError"
    by (simp add: transformer_defs py_int_abc)
  have 6: "transform_indicator_subnational example_pipeline
     [[(''area_id'', ''12345''), (''admin_level'', ''province''), (''year'', ''abc'')]]
     ''KHM'' ''Cambodia'' = Inl ValueError"
    by (simp add: transformer_defs py_int_abc py_int_12345)
  have 7: "transform_sex_disaggregated example_pipeline
     [[(''area_id'', ''12345''), (''admin_level'', ''province''), (''year'', ''abc'')]]
     ''KHM'' ''Cambodia'' = Inl ValueError"
    by (simp add: transformer_defs py_int_abc py_int_12345)
  have 8: "transform_gii_national example_pipeline
     [[(''area_id'', ''1''), (''admin_level'', ''country''), (''gii'', ''0.42'')]] ''KHM''
     = Inl ValueError"
    by (simp add: transformer_defs)
  have f: "filter_csv_by_country example_pipeline
      [[(''area_id'', ''1''), (''admin_level'', ''country''), (''year'', ''abc'')]] ''KHM''
      = [[(''area_id'', ''1''), (''admin_level'', ''country''), (''year'', ''abc'')]]"
    by (simp add: partition_rule row_predicates example_values)
  have 9: "get_country_data example_pipeline
     (no_inputs\<lparr>gii_data :=
        [[(''area_id'', ''1''), (''admin_level'', ''country''), (''year'', ''abc'')]]\<rparr>)
     = Inl ValueError"
    by (simp add: get_country_data_def example_countries country_data_def Let_def
        no_inputs_def f 1)
  from 1 2 3 4 5 6 7 8 9 show ?thesis by (intro conjI)
qed

subsection \<open>C2: the rows of a country's tables name that country\<close>

text \<open>
  C2 as stated. For every country processed by the aggregator, every row of each of its
  seven tables is claimed to carry the country's iso3 in \<open>iso3\<close> and the country's name
  in \<open>country\<close>. The second half fails in the index-national table: for Cambodia, with a
  source row whose \<open>admin_name\<close> is Kampuchea, the result named Cambodia holds an
  index-national row whose \<open>country\<close> is Kampuchea.
\<close>

theorem country_field_counterexample:
  "get_country_data example_pipeline example_inputs = Inr [example_result]
   \<and> r_name example_result = ''Cambodia''
   \<and> map_of (csv_data example_result) ''gii-national''
       = Some [[(''iso3'', ''KHM''), (''country'', ''Kampuchea''), (''year'', ''2015''),
                (''gender_inequality_index'', ''0.5'')]]"
  by (simp add: example_run) (simp add: example_result_def)

text \<open>
  C2 as amended. When the aggregator returns, it returns one result per country, in the
  order of the country list, with that country's iso3 and name; every row of every table
  of the result has the country's iso3 in \<open>iso3\<close>; its \<open>country\<close> is the country's name in
  the five tables whose transformer is given the name; in the index-national and the
  dimension-national table it is the \<open>admin_name\<close> of a source row of that country's own
  national partition, that is, of a row of the table's source that the partitioner keeps
  for this country and whose \<open>admin_level\<close> is country. No row of another country's
  partition shows in a table.
\<close>

theorem output_rows_of_country:
  assumes "get_country_data self inp = Inr results"
      and "i < length results"
      and "(t, table) \<in> set (csv_data (results ! i))"
      and "r \<in> set table"
  shows "length results = length (countries self)
         \<and> r_iso3 (results ! i) = c_iso3 (countries self ! i)
         \<and> r_name (results ! i) = c_name (countries self ! i)
         \<and> row_of_country self inp (c_iso3 (countries self ! i)) (c_name (countries self ! i))
               t r"
proof -
  from assms(1) have len: "length results = length (countries self)"
    and nth: "\<forall>i<length (countries self).
                country_data self inp (countries self ! i) = Inr (results ! i)"
    unfolding get_country_data_def by (auto dest: for_each_nth)
  with assms(2) have cd: "country_data self inp (countries self ! i) = Inr (results ! i)"
    by simp
  from country_data_Inr_D(1,2) [OF cd] country_data_rows [OF cd assms(3,4)] len
  show ?thesis by simp
qed

theorem output_rows_of_country_witness:
  "row_of_country example_pipeline example_inputs ''KHM'' ''Cambodia'' ''gii-national''
     [(''iso3'', ''KHM''), (''country'', ''Kampuchea''), (''year'', ''2015''),
      (''gender_inequality_index'', ''0.5'')]
   \<and> row_of_country example_pipeline example_inputs ''KHM'' ''Cambodia'' ''gii-subnational''
     [(''iso3'', ''KHM''), (''country'', ''Cambodia''), (''province'', ''Phnom Penh''),
      (''year'', ''2019''), (''gender_inequality_index'', ''0.42'')]
   \<and> map_of [(''iso3'', ''KHM''), (''country'', ''Cambodia''), (''province'', ''Phnom Penh''),
              (''year'', ''2019''), (''gender_inequality_index'', ''0.42'')] ''country''
       = Some ''Cambodia''
   \<and> r_iso3 ([example_result] ! 0) = ''KHM''
   \<and> \<not> row_of_country example_pipeline example_inputs ''KHM'' ''Cambodia'' ''gii-national''
         [(''iso3'', ''KHM''), (''country'', ''Elsewhere''), (''year'', ''1990''),
          (''gender_inequality_index'', ''0.9'')]"
proof -
  have run: "get_country_data example_pipeline example_inputs = Inr [example_result]"
    by (rule example_run)
  have i: "0 < length [example_result]" by simp
  have t1: "(''gii-national'',
             [[(''iso3'', ''KHM''), (''country'', ''Kampuchea''), (''year'', ''2015''),
               (''gender_inequality_index'', ''0.5'')]])
            \<in> set (csv_data ([example_result] ! 0))"
    by (simp add: example_result_def)
  have t2: "(''gii-subnational'',
             [[(''iso3'', ''KHM''), (''country'', ''Cambodia''), (''province'', ''Phnom Penh''),
               (''year'', ''2019''), (''gender_inequality_index'', ''0.42'')]])
            \<in> set (csv_data ([example_result] ! 0))"
    by (simp add: example_result_def)
  have a: "row_of_country example_pipeline example_inputs ''KHM'' ''Cambodia'' ''gii-national''
     [(''iso3'', ''KHM''), (''country'', ''Kampuchea''), (''year'', ''2015''),
      (''gender_inequality_index'', ''0.5'')]"
    using output_rows_of_country [OF run i t1] by (simp add: example_countries)
  have b: "row_of_country example_pipeline example_inputs ''KHM'' ''Cambodia''
     ''gii-subnational''
     [(''iso3'', ''KHM''), (''country'', ''Cambodia''), (''province'', ''Phnom Penh''),
      (''year'', ''2019''), (''gender_inequality_index'', ''0.42'')]"
    using output_rows_of_country [OF run i t2] by (simp add: example_countries)
  have c: "r_iso3 ([example_result] ! 0) = ''KHM''"
    using output_rows_of_country [OF run i t2] by (simp add: example_countries)
  have d: "\<not> row_of_country example_pipeline example_inputs ''KHM'' ''Cambodia'' ''gii-national''
         [(''iso3'', ''KHM''), (''country'', ''Elsewhere''), (''year'', ''1990''),
          (''gender_inequality_index'', ''0.9'')]"
    by (simp add: row_of_country_def example_inputs_def row_predicates example_values)
  from a b c d show ?thesis by simp
qed

subsection \<open>C3: the tabular partitioner\<close>

text \<open>
  C3 as stated. The partitioner is claimed to keep a row if and only if its \<open>area_id\<close>
  parses to the country's area and its \<open>admin_level\<close> is country, or parses to an area of
  one of the country's provinces and its \<open>admin_level\<close> is province. The code reads an
  absent \<open>area_id\<close> column as \<open>-1\<close>: for a country whose area is \<open>-1\<close>, a row with
  \<open>admin_level\<close> country and no \<open>area_id\<close> at all is kept, though no \<open>area_id\<close> of it
  parses.
\<close>

theorem partition_counterexample:
  "filter_csv_by_country
     (Pipeline [\<lparr>f_iso = ''XXX'', f_name_0 = ''Nowhere'', f_name_1 = '''', f_area_id = - 1,
                 f_rest = ''''\<rparr>] [])
     [[(''admin_level'', ''country'')]] ''XXX''
   = [[(''admin_level'', ''country'')]]
   \<and> area_id_parsed [(''admin_level'', ''country'')] = None
   \<and> \<not> claimed_keep
         (Pipeline [\<lparr>f_iso = ''XXX'', f_name_0 = ''Nowhere'', f_name_1 = '''', f_area_id = - 1,
                     f_rest = ''''\<rparr>] [])
         ''XXX'' [(''admin_level'', ''country'')]"
  by (simp add: partition_rule keeps_def claimed_keep_def area_id_parsed_def
      area_id_or_default_def area_matches_def get_or_def get_country_area_id_def Pipeline_def
      load_countries_def)

text \<open>
  C3 as amended. For every list of raw rows and every country code, the partitioner returns,
  in their order, exactly the rows whose \<open>area_id\<close>, read as \<open>-1\<close> when the column is
  absent, parses to an integer that is the area of the first listed country of that code
  while \<open>admin_level\<close> is country, or that the province mapping assigns to that code while
  \<open>admin_level\<close> is province. A row whose \<open>area_id\<close> is present and does not parse is not
  among them; the partitioner raises nothing.
\<close>

theorem tabular_partition:
  "filter_csv_by_country self rows country_code = filter (keeps self country_code) rows
   \<and> (map_of row ''area_id'' = Some v \<and> py_int v = None \<longrightarrow>
        row \<notin> set (filter_csv_by_country self rows country_code))"
  by (simp add: partition_rule keeps_def area_id_or_default_def)

theorem tabular_partition_witness:
  "filter_csv_by_country example_pipeline (gii_data example_inputs) ''KHM''
     = [[(''area_id'', ''12345''), (''admin_level'', ''province''), (''admin_name'', ''x''),
         (''year'', ''2019''), (''gii'', ''0.42'')],
        [(''area_id'', ''1''), (''admin_level'', ''country''), (''admin_name'', ''Kampuchea''),
         (''year'', ''2015''), (''gii'', ''0.5'')]]
   \<and> map_of [(''area_id'', ''abc''), (''admin_level'', ''country'')] ''area_id'' = Some ''abc''
   \<and> py_int ''abc'' = None
   \<and> [(''area_id'', ''abc''), (''admin_level'', ''country'')]
        \<notin> set (filter_csv_by_country example_pipeline
                 [[(''area_id'', ''abc''), (''admin_level'', ''country'')]] ''KHM'')"
proof -
  have a: "filter_csv_by_country example_pipeline (gii_data example_inputs) ''KHM''
             = filter (keeps example_pipeline ''KHM'') (gii_data example_inputs)"
    using tabular_partition [of example_pipeline "gii_data example_inputs" "''KHM''"] by blast
  have b: "filter (keeps example_pipeline ''KHM'') (gii_data example_inputs)
     = [[(''area_id'', ''12345''), (''admin_level'', ''province''), (''admin_name'', ''x''),
         (''year'', ''2019''), (''gii'', ''0.42'')],
        [(''area_id'', ''1''), (''admin_level'', ''country''), (''admin_name'', ''Kampuchea''),
         (''year'', ''2015''), (''gii'', ''0.5'')]]"
    by (simp add: example_inputs_def row_predicates example_values)
  have c: "map_of [(''area_id'', ''abc''), (''admin_level'', ''country'')] ''area_id'' = Some ''abc''"
    by simp
  have d: "[(''area_id'', ''abc''), (''admin_level'', ''country'')]
        \<notin> set (filter_csv_by_country example_pipeline
                 [[(''area_id'', ''abc''), (''admin_level'', ''country'')]] ''KHM'')"
    using tabular_partition [of example_pipeline
        "[[(''area_id'', ''abc''), (''admin_level'', ''country'')]]" "''KHM''"
        "[(''area_id'', ''abc''), (''admin_level'', ''country'')]" "''abc''"] c py_int_abc
    by blast
  from a b c d py_int_abc show ?thesis by simp
qed

subsection \<open>C4: the temporal range extractor\<close>

text \<open>
  C4. For every sequence of rows, the temporal range extractor returns the least and the
  greatest of the \<open>year\<close> values that parse as integers when there is one, and exactly
  (2000, 2024) when no row has a year that parses, the empty sequence included.
\<close>

theorem temporal_range:
  "get_years_from_rows rows =
     (if parsed_years rows = {} then (2000, 2024)
      else (Min (parsed_years rows), Max (parsed_years rows)))"
  by (simp add: get_years_from_rows_def fold_add_year Let_def)

theorem temporal_range_witness:
  "parsed_years [[(''year'', ''2019'')], [(''year'', ''abc'')], [(''year'', ''1990'')]] = {1990, 2019}
   \<and> get_years_from_rows [[(''year'', ''2019'')], [(''year'', ''abc'')], [(''year'', ''1990'')]]
       = (1990, 2019)
   \<and> parsed_years [[(''year'', ''abc'')], [(''gii'', ''0.42'')]] = {}
   \<and> get_years_from_rows [[(''year'', ''abc'')], [(''gii'', ''0.42'')]] = (2000, 2024)
   \<and> get_years_from_rows [] = (2000, 2024)"
proof -
  have a: "parsed_years [[(''year'', ''2019'')], [(''year'', ''abc'')], [(''year'', ''1990'')]]
             = {1990, 2019}"
    by (auto simp: parsed_years_def py_int_2019 py_int_abc py_int_1990)
  have b: "parsed_years [[(''year'', ''abc'')], [(''gii'', ''0.42'')]] = {}"
    by (auto simp: parsed_years_def py_int_abc)
  have c: "parsed_years [] = {}"
    by (simp add: parsed_years_def)
  show ?thesis
    using temporal_range [of "[[(''year'', ''2019'')], [(''year'', ''abc'')], [(''year'', ''1990'')]]"]
      temporal_range [of "[[(''year'', ''abc'')], [(''gii'', ''0.42'')]]"]
      temporal_range [of "[]"]
    by (simp add: a b c)
qed

subsection \<open>C5: the order of the subnational and sex-disaggregated tables\<close>

text \<open>
  C5. Whenever the index-subnational, dimension-subnational, indicator-subnational or
  sex-disaggregated transformer returns, any two adjacent rows of its table have integer
  years that do not increase; within one year the \<open>province\<close> does not decrease in the
  lexicographic order of strings; and within one province the remaining keys of the schema
  (category, then name; for the sex-disaggregated table the indicator) do not decrease, each
  within equal earlier keys.
\<close>

theorem subnational_tables_sorted:
  "(transform_gii_subnational self rows code name = Inr out \<longrightarrow>
      table_ordered [''province''] out)
   \<and> (transform_dimension_subnational self rows code name = Inr out \<longrightarrow>
      table_ordered [''province'', ''dimension_category'', ''dimension''] out)
   \<and> (transform_indicator_subnational self rows code name = Inr out \<longrightarrow>
      table_ordered [''province'', ''indicator_category'', ''indicator''] out)
   \<and> (transform_sex_disaggregated self rows code name = Inr out \<longrightarrow>
      table_ordered [''province'', ''indicator''] out)"
  using gii_subnational_ordered dimension_subnational_ordered indicator_subnational_ordered
    sex_disaggregated_ordered
  by blast

theorem subnational_tables_sorted_witness:
  "transform_gii_subnational example_pipeline
     [[(''area_id'', ''12345''), (''admin_level'', ''province''), (''year'', ''2019'')],
      [(''area_id'', ''7''), (''admin_level'', ''province''), (''year'', ''2019'')],
      [(''area_id'', ''12345''), (''admin_level'', ''province''), (''year'', ''2020'')]]
     ''KHM'' ''Cambodia''
   = Inr [[(''iso3'', ''KHM''), (''country'', ''Cambodia''), (''province'', ''Phnom Penh''),
           (''year'', ''2020''), (''gender_inequality_index'', '''')],
          [(''iso3'', ''KHM''), (''country'', ''Cambodia''), (''province'', ''''),
           (''year'', ''2019''), (''gender_inequality_index'', '''')],
          [(''iso3'', ''KHM''), (''country'', ''Cambodia''), (''province'', ''Phnom Penh''),
           (''year'', ''2019''), (''gender_inequality_index'', '''')]]
   \<and> table_ordered [''province'']
        [[(''iso3'', ''KHM''), (''country'', ''Cambodia''), (''province'', ''Phnom Penh''),
           (''year'', ''2020''), (''gender_inequality_index'', '''')],
          [(''iso3'', ''KHM''), (''country'', ''Cambodia''), (''province'', ''''),
           (''year'', ''2019''), (''gender_inequality_index'', '''')],
          [(''iso3'', ''KHM''), (''country'', ''Cambodia''), (''province'', ''Phnom Penh''),
           (''year'', ''2019''), (''gender_inequality_index'', '''')]]
   \<and> table_ordered [''province'', ''dimension_category'', ''dimension'']
        [[(''iso3'', ''KHM''), (''country'', ''Cambodia''), (''province'', ''Phnom Penh''),
          (''dimension_category'', ''Health''), (''dimension'', ''a''), (''gender'', ''''),
          (''year'', ''2019''), (''value'', ''''), (''unit'', '''')],
         [(''iso3'', ''KHM''), (''country'', ''Cambodia''), (''province'', ''Phnom Penh''),
          (''dimension_category'', ''Health''), (''dimension'', ''b''), (''gender'', ''''),
          (''year'', ''2019''), (''value'', ''''), (''unit'', '''')]]
   \<and> table_ordered [''province'', ''indicator_category'', ''indicator'']
        [[(''iso3'', ''KHM''), (''country'', ''Cambodia''), (''province'', ''Phnom Penh''),
          (''indicator_category'', ''Education''), (''indicator'', ''z''), (''gender'', ''''),
          (''year'', ''2019''), (''value'', ''''), (''unit'', '''')],
         [(''iso3'', ''KHM''), (''country'', ''Cambodia''), (''province'', ''Phnom Penh''),
          (''indicator_category'', ''Work''), (''indicator'', ''a''), (''gender'', ''''),
          (''year'', ''2019''), (''value'', ''''), (''unit'', '''')]]
   \<and> table_ordered [''province'', ''indicator'']
        [[(''iso3'', ''KHM''), (''country'', ''Cambodia''), (''province'', ''Phnom Penh''),
          (''indicator'', ''Employment''), (''sub_indicator'', ''''), (''gender'', ''''),
          (''year'', ''2018''), (''value'', ''''), (''unit'', ''''),
          (''calculation_type'', ''''), (''definition'', '''')],
         [(''iso3'', ''KHM''), (''country'', ''Cambodia''), (''province'', ''Phnom Penh''),
          (''indicator'', ''Literacy''), (''sub_indicator'', ''''), (''gender'', ''''),
          (''year'', ''2018''), (''value'', ''''), (''unit'', ''''),
          (''calculation_type'', ''''), (''definition'', '''')]]"
proof -
  note inst = subnational_tables_sorted [where self = example_pipeline and code = "''KHM''"
      and name = "''Cambodia''"]
  have g: "transform_gii_subnational example_pipeline
     [[(''area_id'', ''12345''), (''admin_level'', ''province''), (''year'', ''2019'')],
      [(''area_id'', ''7''), (''admin_level'', ''province''), (''year'', ''2019'')],
      [(''area_id'', ''12345''), (''admin_level'', ''province''), (''year'', ''2020'')]]
     ''KHM'' ''Cambodia''
   = Inr [[(''iso3'', ''KHM''), (''country'', ''Cambodia''), (''province'', ''Phnom Penh''),
           (''year'', ''2020''), (''gender_inequality_index'', '''')],
          [(''iso3'', ''KHM''), (''country'', ''Cambodia''), (''province'', ''''),
           (''year'', ''2019''), (''gender_inequality_index'', '''')],
          [(''iso3'', ''KHM''), (''country'', ''Cambodia''), (''province'', ''Phnom Penh''),
           (''year'', ''2019''), (''gender_inequality_index'', '''')]]"
    by (simp add: transform_gii_subnational_iff gii_subnational_row_def skey2_def
        row_predicates example_values)
  have d: "transform_dimension_subnational example_pipeline
          [[(''area_id'', ''12345''), (''admin_level'', ''province''), ('''', ''Health''),
            (''dimension_name'', ''b''), (''year'', ''2019'')],
           [(''area_id'', ''12345''), (''admin_level'', ''province''), ('''', ''Health''),
            (''dimension_name'', ''a''), (''year'', ''2019'')]]
          ''KHM'' ''Cambodia''
      = Inr [[(''iso3'', ''KHM''), (''country'', ''Cambodia''), (''province'', ''Phnom Penh''),
          (''dimension_category'', ''Health''), (''dimension'', ''a''), (''gender'', ''''),
          (''year'', ''2019''), (''value'', ''''), (''unit'', '''')],
         [(''iso3'', ''KHM''), (''country'', ''Cambodia''), (''province'', ''Phnom Penh''),
          (''dimension_category'', ''Health''), (''dimension'', ''b''), (''gender'', ''''),
          (''year'', ''2019''), (''value'', ''''), (''unit'', '''')]]"
    by (simp add: transform_dimension_subnational_iff dimension_subnational_row_def skey4_def
        row_predicates example_values)
  have i: "transform_indicator_subnational example_pipeline
          [[(''area_id'', ''12345''), (''admin_level'', ''province''), (''common_name'', ''Work''),
            (''indicator_name'', ''a''), (''year'', ''2019'')],
           [(''area_id'', ''12345''), (''admin_level'', ''province''),
            (''common_name'', ''Education''), (''indicator_name'', ''z''), (''year'', ''2019'')]]
          ''KHM'' ''Cambodia''
      = Inr [[(''iso3'', ''KHM''), (''country'', ''Cambodia''), (''province'', ''Phnom Penh''),
          (''indicator_category'', ''Education''), (''indicator'', ''z''), (''gender'', ''''),
          (''year'', ''2019''), (''value'', ''''), (''unit'', '''')],
         [(''iso3'', ''KHM''), (''country'', ''Cambodia''), (''province'', ''Phnom Penh''),
          (''indicator_category'', ''Work''), (''indicator'', ''a''), (''gender'', ''''),
          (''year'', ''2019''), (''value'', ''''), (''unit'', '''')]]"
    by (simp add: transform_indicator_subnational_iff indicator_subnational_row_def skey4_def
        row_predicates example_values)
  have s: "transform_sex_disaggregated example_pipeline
          [[(''area_id'', ''12345''), (''dataset_name_l1'', ''Literacy''), (''year'', ''2018'')],
           [(''area_id'', ''12345''), (''dataset_name_l1'', ''Employment''), (''year'', ''2018'')]]
          ''KHM'' ''Cambodia''
      = Inr [[(''iso3'', ''KHM''), (''country'', ''Cambodia''), (''province'', ''Phnom Penh''),
          (''indicator'', ''Employment''), (''sub_indicator'', ''''), (''gender'', ''''),
          (''year'', ''2018''), (''value'', ''''), (''unit'', ''''),
          (''calculation_type'', ''''), (''definition'', '''')],
         [(''iso3'', ''KHM''), (''country'', ''Cambodia''), (''province'', ''Phnom Penh''),
          (''indicator'', ''Literacy''), (''sub_indicator'', ''''), (''gender'', ''''),
          (''year'', ''2018''), (''value'', ''''), (''unit'', ''''),
          (''calculation_type'', ''''), (''definition'', '''')]]"
    by (simp add: transform_sex_disaggregated_iff sex_disaggregated_row_def skey3_def
        row_predicates example_values)
  from inst [THEN conjunct1, rule_format, OF g]
    inst [THEN conjunct2, THEN conjunct1, rule_format, OF d]
    inst [THEN conjunct2, THEN conjunct2, THEN conjunct1, rule_format, OF i]
    inst [THEN conjunct2, THEN conjunct2, THEN conjunct2, rule_format, OF s]
    g
  show ?thesis by (intro conjI)
qed

subsection \<open>C6: province resolution\<close>

text \<open>
  C6 as stated. Province resolution is claimed never to fail, and to give the empty string
  also when the \<open>area_id\<close> does not parse as an integer. The code guards the empty
  \<open>area_id\<close> only: on a row whose \<open>area_id\<close> is \<open>abc\<close> the resolution raises, and with
  it the index-subnational and the sex-disaggregated transformer.
\<close>

theorem province_resolution_counterexample:
  "resolve_province example_pipeline
     [(''area_id'', ''abc''), (''admin_level'', ''province''), (''year'', ''2019'')]
   = Inl ValueError
   \<and> transform_gii_subnational example_pipeline
        [[(''area_id'', ''abc''), (''admin_level'', ''province''), (''year'', ''2019'')]]
        ''KHM'' ''Cambodia''
      = Inl ValueError
   \<and> transform_sex_disaggregated example_pipeline
        [[(''area_id'', ''abc''), (''admin_level'', ''province''), (''year'', ''2019'')]]
        ''KHM'' ''Cambodia''
      = Inl ValueError"
  by (simp add: resolve_province_def get_or_def int_str_def py_int_abc
      transform_gii_subnational_def transform_sex_disaggregated_def not_admin_level_def)

text \<open>
  C6 as amended. For every row whose \<open>area_id\<close> is absent, empty or parses as an integer,
  province resolution does not fail: it gives the mapped name when the \<open>area_id\<close> is in the
  province mapping and the empty string when it is absent, empty or not in the mapping.
  No row is dropped for its province: on rows of that kind whose years parse, each of the
  four province-resolving transformers returns a table that holds, for every row of its
  admin scope, the record built from it with the resolved province.
\<close>

theorem province_resolution:
  "(area_ok row \<longrightarrow> resolve_province self row = Inr (province_of self row))
   \<and> ((\<forall>row\<in>set rows. in_scope ''province'' row \<longrightarrow> area_ok row \<and> year_ok row) \<longrightarrow>
        (\<exists>out. transform_gii_subnational self rows code name = Inr out \<and>
           mset out = image_mset (\<lambda>row. gii_subnational_row code name (province_of self row) row)
                        (mset (filter (in_scope ''province'') rows)))
        \<and> (\<exists>out. transform_dimension_subnational self rows code name = Inr out \<and>
           mset out = image_mset (\<lambda>row. dimension_subnational_row code name (province_of self row) row)
                        (mset (filter (in_scope ''province'') rows)))
        \<and> (\<exists>out. transform_indicator_subnational self rows code name = Inr out \<and>
           mset out = image_mset (\<lambda>row. indicator_subnational_row code name (province_of self row) row)
                        (mset (filter (in_scope ''province'') rows))))
   \<and> ((\<forall>row\<in>set rows. area_ok row \<and> year_ok row) \<longrightarrow>
        (\<exists>out. transform_sex_disaggregated self rows code name = Inr out \<and>
           mset out = image_mset (\<lambda>row. sex_disaggregated_row code name (province_of self row) row)
                        (mset rows)))"
  by (simp add: resolve_province_ok transform_gii_subnational_iff
      transform_dimension_subnational_iff transform_indicator_subnational_iff
      transform_sex_disaggregated_iff)

theorem province_resolution_witness:
  "resolve_province example_pipeline [(''area_id'', ''12345''), (''year'', ''2019'')]
     = Inr ''Phnom Penh''
   \<and> resolve_province example_pipeline [(''area_id'', ''7''), (''year'', ''2019'')] = Inr ''''
   \<and> resolve_province example_pipeline [(''area_id'', ''''), (''year'', ''2019'')] = Inr ''''
   \<and> resolve_province example_pipeline [(''year'', ''2019'')] = Inr ''''
   \<and> (\<exists>out. transform_sex_disaggregated example_pipeline
               [[(''area_id'', ''12345''), (''year'', ''2019'')],
                [(''area_id'', ''7''), (''year'', ''2019'')],
                [(''area_id'', ''''), (''year'', ''2019'')],
                [(''year'', ''2019'')]] ''KHM'' ''Cambodia'' = Inr out
             \<and> mset out =
                 image_mset (\<lambda>row. sex_disaggregated_row ''KHM'' ''Cambodia''
                                      (province_of example_pipeline row) row)
                   (mset [[(''area_id'', ''12345''), (''year'', ''2019'')],
                          [(''area_id'', ''7''), (''year'', ''2019'')],
                          [(''area_id'', ''''), (''year'', ''2019'')],
                          [(''year'', ''2019'')]]))
   \<and> (\<exists>out. transform_gii_subnational example_pipeline
               [[(''area_id'', ''7''), (''admin_level'', ''province''), (''year'', ''2019'')]]
               ''KHM'' ''Cambodia'' = Inr out
             \<and> mset out =
                 image_mset (\<lambda>row. gii_subnational_row ''KHM'' ''Cambodia''
                                      (province_of example_pipeline row) row)
                   (mset (filter (in_scope ''province'')
                      [[(''area_id'', ''7''), (''admin_level'', ''province''),
                        (''year'', ''2019'')]])))
   \<and> transform_gii_subnational example_pipeline
        [[(''area_id'', ''7''), (''admin_level'', ''province''), (''year'', ''2019'')]]
        ''KHM'' ''Cambodia''
      = Inr [[(''iso3'', ''KHM''), (''country'', ''Cambodia''), (''province'', ''''),
              (''year'', ''2019''), (''gender_inequality_index'', '''')]]"
proof -
  note res = province_resolution [where self = example_pipeline, THEN conjunct1, THEN mp]
  have 1: "resolve_province example_pipeline [(''area_id'', ''12345''), (''year'', ''2019'')]
     = Inr ''Phnom Penh''"
    using res [of "[(''area_id'', ''12345''), (''year'', ''2019'')]"]
    by (simp add: row_predicates example_values)
  have 2: "resolve_province example_pipeline [(''area_id'', ''7''), (''year'', ''2019'')] = Inr ''''"
    using res [of "[(''area_id'', ''7''), (''year'', ''2019'')]"]
    by (simp add: row_predicates example_values)
  have 3: "resolve_province example_pipeline [(''area_id'', ''''), (''year'', ''2019'')] = Inr ''''"
    using res [of "[(''area_id'', ''''), (''year'', ''2019'')]"]
    by (simp add: row_predicates example_values)
  have 4: "resolve_province example_pipeline [(''year'', ''2019'')] = Inr ''''"
    using res [of "[(''year'', ''2019'')]"]
    by (simp add: row_predicates example_values)
  let ?rows = "[[(''area_id'', ''12345''), (''year'', ''2019'')],
                [(''area_id'', ''7''), (''year'', ''2019'')],
                [(''area_id'', ''''), (''year'', ''2019'')],
                [(''year'', ''2019'')]]"
  have ok: "\<forall>row\<in>set ?rows. area_ok row \<and> year_ok row"
    by (simp add: row_predicates example_values)
  note 5 = province_resolution [where self = example_pipeline and rows = ?rows
      and code = "''KHM''" and name = "''Cambodia''",
      THEN conjunct2, THEN conjunct2, THEN mp, OF ok]
  let ?g = "[[(''area_id'', ''7''), (''admin_level'', ''province''), (''year'', ''2019'')]]"
  have okg: "\<forall>row\<in>set ?g. in_scope ''province'' row \<longrightarrow> area_ok row \<and> year_ok row"
    by (simp add: row_predicates example_values)
  note 6 = province_resolution [where self = example_pipeline and rows = ?g
      and code = "''KHM''" and name = "''Cambodia''",
      THEN conjunct2, THEN conjunct1, THEN mp, OF okg, THEN conjunct1]
  have 7: "transform_gii_subnational example_pipeline ?g ''KHM'' ''Cambodia''
      = Inr [[(''iso3'', ''KHM''), (''country'', ''Cambodia''), (''province'', ''''),
              (''year'', ''2019''), (''gender_inequality_index'', '''')]]"
    by (simp add: transform_gii_subnational_iff gii_subnational_row_def skey2_def
        row_predicates example_values)
  from 1 2 3 4 5 6 7 show ?thesis by (intro conjI)
qed

subsection \<open>C7: which rows reach the sex-disaggregated table\<close>

text \<open>
  C7 as stated. A sex-disaggregated source row that matches the country by area is claimed
  to reach the country's sex-disaggregated table whatever its \<open>admin_level\<close>, also when it
  has none. The partitioner runs before the transformer and tests \<open>admin_level\<close> for every
  source table: a row of Phnom Penh's area with no \<open>admin_level\<close> is dropped, and the
  table is empty.
\<close>

theorem sex_disaggregated_counterexample:
  "area_of_country example_pipeline ''KHM''
     [(''area_id'', ''12345''), (''dataset_name_l1'', ''Literacy''), (''year'', ''2018'')]
   \<and> transform_sex_disaggregated example_pipeline
        (filter_csv_by_country example_pipeline
           [[(''area_id'', ''12345''), (''dataset_name_l1'', ''Literacy''), (''year'', ''2018'')]]
           ''KHM'')
        ''KHM'' ''Cambodia''
      = Inr []"
  by (simp add: area_of_country_def area_id_parsed_def province_of_country_def example_lookup
      py_int_12345 partition_rule keeps_def area_id_or_default_def area_matches_def get_or_def
      transform_sex_disaggregated_iff)

text \<open>
  C7 as amended. The sex-disaggregated table of a country is built from exactly the source
  rows the partitioner keeps, by the rule it applies to every table: the area of the country
  with \<open>admin_level\<close> country, or the area of one of its provinces with \<open>admin_level\<close>
  province. The transformer adds no test of \<open>admin_level\<close> of its own: when the years of
  the kept rows parse it returns one record for each of them, sorted, and it returns in no
  other case.
\<close>

theorem sex_disaggregated_inclusion:
  "transform_sex_disaggregated self (filter_csv_by_country self rows code) code name = Inr out
   \<longleftrightarrow>
     (\<forall>row\<in>set rows. keeps self code row \<longrightarrow> year_ok row) \<and>
     out = sort_key (skey3 ''province'' ''indicator'')
             (map (\<lambda>row. sex_disaggregated_row code name (province_of self row) row)
                (filter (keeps self code) rows))"
  by (auto simp: transform_sex_disaggregated_iff partition_rule keeps_area_ok)

theorem sex_disaggregated_inclusion_witness:
  "transform_sex_disaggregated example_pipeline
        (filter_csv_by_country example_pipeline
           [[(''area_id'', ''12345''), (''admin_level'', ''province''),
             (''dataset_name_l1'', ''Literacy''), (''year'', ''2018'')],
            [(''area_id'', ''1''), (''admin_level'', ''country''),
             (''dataset_name_l1'', ''Literacy''), (''year'', ''2018'')],
            [(''area_id'', ''12345''), (''dataset_name_l1'', ''Literacy''), (''year'', ''2018'')]]
           ''KHM'')
        ''KHM'' ''Cambodia''
      = Inr [[(''iso3'', ''KHM''), (''country'', ''Cambodia''), (''province'', ''''),
              (''indicator'', ''Literacy''), (''sub_indicator'', ''''), (''gender'', ''''),
              (''year'', ''2018''), (''value'', ''''), (''unit'', ''''),
              (''calculation_type'', ''''), (''definition'', '''')],
             [(''iso3'', ''KHM''), (''country'', ''Cambodia''), (''province'', ''Phnom Penh''),
              (''indicator'', ''Literacy''), (''sub_indicator'', ''''), (''gender'', ''''),
              (''year'', ''2018''), (''value'', ''''), (''unit'', ''''),
              (''calculation_type'', ''''), (''definition'', '''')]]"
proof -
  let ?rows = "[[(''area_id'', ''12345''), (''admin_level'', ''province''),
             (''dataset_name_l1'', ''Literacy''), (''year'', ''2018'')],
            [(''area_id'', ''1''), (''admin_level'', ''country''),
             (''dataset_name_l1'', ''Literacy''), (''year'', ''2018'')],
            [(''area_id'', ''12345''), (''dataset_name_l1'', ''Literacy''), (''year'', ''2018'')]]"
  have y: "\<forall>row\<in>set ?rows. keeps example_pipeline ''KHM'' row \<longrightarrow> year_ok row"
    by (simp add: year_ok_def get_or_def py_int_2018)
  have eq: "sort_key (skey3 ''province'' ''indicator'')
             (map (\<lambda>row. sex_disaggregated_row ''KHM'' ''Cambodia''
                            (province_of example_pipeline row) row)
                (filter (keeps example_pipeline ''KHM'') ?rows))
      = [[(''iso3'', ''KHM''), (''country'', ''Cambodia''), (''province'', ''''),
              (''indicator'', ''Literacy''), (''sub_indicator'', ''''), (''gender'', ''''),
              (''year'', ''2018''), (''value'', ''''), (''unit'', ''''),
              (''calculation_type'', ''''), (''definition'', '''')],
             [(''iso3'', ''KHM''), (''country'', ''Cambodia''), (''province'', ''Phnom Penh''),
              (''indicator'', ''Literacy''), (''sub_indicator'', ''''), (''gender'', ''''),
              (''year'', ''2018''), (''value'', ''''), (''unit'', ''''),
              (''calculation_type'', ''''), (''definition'', '''')]]"
    by (simp add: sex_disaggregated_row_def skey3_def row_predicates example_values)
  have "transform_sex_disaggregated example_pipeline
          (filter_csv_by_country example_pipeline ?rows ''KHM'') ''KHM'' ''Cambodia''
      = Inr (sort_key (skey3 ''province'' ''indicator'')
             (map (\<lambda>row. sex_disaggregated_row ''KHM'' ''Cambodia''
                            (province_of example_pipeline row) row)
                (filter (keeps example_pipeline ''KHM'') ?rows)))"
    by (rule sex_disaggregated_inclusion [THEN iffD2, OF conjI [OF y refl]])
  then show ?thesis by (simp only: eq)
qed

subsection \<open>C8: the worked index-subnational scenario\<close>

text \<open>
  C8. Given a province mapping that contains 12345 with iso3 KHM and name Phnom Penh, the
  single source row with \<open>area_id\<close> 12345, \<open>admin_level\<close> province, \<open>admin_name\<close> x,
  \<open>year\<close> 2019 and \<open>gii\<close> 0.42, the country code KHM and the country name Cambodia, the
  index-subnational transformer returns exactly one record: iso3 KHM, country Cambodia,
  province Phnom Penh, year 2019, gender_inequality_index 0.42.
\<close>

theorem index_subnational_scenario:
  assumes "Mapping.lookup (province_mapping self) 12345
             = Some \<lparr>p_iso3 = ''KHM'', p_name = ''Phnom Penh''\<rparr>"
  shows "transform_gii_subnational self
           [[(''area_id'', ''12345''), (''admin_level'', ''province''), (''admin_name'', ''x''),
             (''year'', ''2019''), (''gii'', ''0.42'')]] ''KHM'' ''Cambodia''
         = Inr [[(''iso3'', ''KHM''), (''country'', ''Cambodia''), (''province'', ''Phnom Penh''),
                 (''year'', ''2019''), (''gender_inequality_index'', ''0.42'')]]"
  using assms
  by (simp add: transform_gii_subnational_iff in_scope_def area_ok_def year_ok_def get_or_def
      province_of_def gii_subnational_row_def py_int_12345 py_int_2019)

theorem index_subnational_scenario_witness:
  "Mapping.lookup (province_mapping example_pipeline) 12345
     = Some \<lparr>p_iso3 = ''KHM'', p_name = ''Phnom Penh''\<rparr>
   \<and> transform_gii_subnational example_pipeline
           [[(''area_id'', ''12345''), (''admin_level'', ''province''), (''admin_name'', ''x''),
             (''year'', ''2019''), (''gii'', ''0.42'')]] ''KHM'' ''Cambodia''
         = Inr [[(''iso3'', ''KHM''), (''country'', ''Cambodia''), (''province'', ''Phnom Penh''),
                 (''year'', ''2019''), (''gender_inequality_index'', ''0.42'')]]"
proof -
  have h: "Mapping.lookup (province_mapping example_pipeline) 12345
             = Some \<lparr>p_iso3 = ''KHM'', p_name = ''Phnom Penh''\<rparr>"
    by (simp add: example_lookup)
  from h index_subnational_scenario [OF h] show ?thesis by (rule conjI)
qed

subsection \<open>C10: the year range of a result is ordered\<close>

text \<open>
  C10. Every Per-Country Result of the aggregator has \<open>min_year \<le> max_year\<close>, in both
  branches of the year extraction: the least parsed year is at most the greatest, and the
  fallback pair (2000, 2024) is ordered.
\<close>

theorem year_range_ordered:
  "fst (get_years_from_rows rows) \<le> snd (get_years_from_rows rows)
   \<and> (get_country_data self inp = Inr results \<longrightarrow>
        (\<forall>res\<in>set results. min_year res \<le> max_year res))"
proof (intro conjI impI ballI)
  show "fst (get_years_from_rows rows) \<le> snd (get_years_from_rows rows)"
    by (rule get_years_ordered)
next
  fix res
  assume "get_country_data self inp = Inr results" and "res \<in> set results"
  then obtain c where "country_data self inp c = Inr res"
    unfolding get_country_data_def by (blast dest: for_each_set)
  then show "min_year res \<le> max_year res" by (rule country_data_Inr_D)
qed

theorem year_range_ordered_witness:
  "get_country_data example_pipeline example_inputs = Inr [example_result]
   \<and> example_result \<in> set [example_result]
   \<and> min_year example_result = 2015 \<and> max_year example_result = 2019
   \<and> min_year example_result \<le> max_year example_result"
proof -
  have run: "get_country_data example_pipeline example_inputs = Inr [example_result]"
    by (rule example_run)
  have "\<forall>res\<in>set [example_result]. min_year res \<le> max_year res"
    using year_range_ordered [of "[]" example_pipeline example_inputs "[example_result]"] run
    by blast
  then have le: "min_year example_result \<le> max_year example_result" by simp
  have "min_year example_result = 2015" "max_year example_result = 2019"
    by (simp_all add: example_result_def)
  with run le show ?thesis by simp
qed

end
